theory Spec2Isabelle
  imports Main "HOL-Library.Sublist" "HOL-Library.AList"
begin

section \<open>Strings, bytes and Python errors\<close>

text \<open>
  Python strings and byte strings are lists of characters. A \<^typ>\<open>char\<close> is one of 256
  code points; a code point of 128 or more stands for a non-ASCII character.
  Every exception the program can raise is a value of \<open>py_error\<close>; a function that may
  raise returns \<open>py_error + 'a\<close>, with \<open>Inl\<close> for the raised exception.
\<close>

type_synonym path = string
type_synonym bytes = string

text \<open>JSON values, as the authentication service returns them and the session keeps them.\<close>

datatype json =
    JNull
  | JBool bool
  | JNum int
  | JStr string
  | JArr "json list"
  | JObj "(string \<times> json) list"

text \<open>Why a request to the authentication service failed (\<open>requests.RequestException\<close>),
  and why \<open>AuthenticationError\<close> is raised; the message of the exception is a fixed
  text around these values.\<close>

datatype request_failure = Connection_failed string | Bad_status nat | Invalid_json

datatype auth_reason =
    Request_failed request_failure
  | Fetch_failed request_failure
  | Role_not_authorized json
  | User_id_missing
  | No_cookies

datatype py_error =
    ValueError string
  | Binascii_Error string
  | IndexError
  | KeyError string
  | TypeError
  | AttributeError
  | FileNotFoundError string
  | IsADirectoryError string
  | NotADirectoryError string
  | OSError string
  | UnrecognizedImageError string
  | CalledProcessError int string string
  | Exception string
  | AuthenticationError auth_reason

definition is_digit :: "char \<Rightarrow> bool" where
  "is_digit c = (48 \<le> (of_char c :: nat) \<and> (of_char c :: nat) \<le> 57)"

definition digit_val :: "char \<Rightarrow> nat" where
  "digit_val c = (of_char c :: nat) - 48"

section \<open>Input validation\<close>

subsection \<open>\<open>datetime.strptime(date_str, '%Y-%m-%d')\<close>\<close>

text \<open>
  The library call is modelled after CPython's \<open>_strptime\<close>: the format becomes the
  regular expression
  \<^verbatim>\<open>(?P<Y>\d\d\d\d)-(?P<m>1[0-2]|0[1-9]|[1-9])-(?P<d>3[0-1]|[1-2]\d|0[1-9]|[1-9]| [1-9])\<close>,
  matched at the start of the string with the alternatives tried in the order written;
  a match that does not reach the end of the string raises \<open>ValueError\<close> (unconverted
  data remains), and so does a date that \<open>datetime\<close> refuses (year 0, or a day the
  month does not have).
\<close>

definition month_alts :: "string \<Rightarrow> (nat \<times> string) list" where
  "month_alts s =
     (case s of
        a # b # r \<Rightarrow>
          (if a = CHR ''1'' \<and> is_digit b \<and> digit_val b \<le> 2 then [(10 + digit_val b, r)] else []) @
          (if a = CHR ''0'' \<and> is_digit b \<and> 1 \<le> digit_val b then [(digit_val b, r)] else [])
      | _ \<Rightarrow> []) @
     (case s of
        a # r \<Rightarrow> (if is_digit a \<and> 1 \<le> digit_val a then [(digit_val a, r)] else [])
      | [] \<Rightarrow> [])"

definition day_alts :: "string \<Rightarrow> (nat \<times> string) list" where
  "day_alts s =
     (case s of
        a # b # r \<Rightarrow>
          (if a = CHR ''3'' \<and> is_digit b \<and> digit_val b \<le> 1 then [(30 + digit_val b, r)] else []) @
          (if is_digit a \<and> 1 \<le> digit_val a \<and> digit_val a \<le> 2 \<and> is_digit b
           then [(10 * digit_val a + digit_val b, r)] else []) @
          (if a = CHR ''0'' \<and> is_digit b \<and> 1 \<le> digit_val b then [(digit_val b, r)] else [])
      | _ \<Rightarrow> []) @
     (case s of
        a # r \<Rightarrow> (if is_digit a \<and> 1 \<le> digit_val a then [(digit_val a, r)] else [])
      | [] \<Rightarrow> []) @
     (case s of
        a # b # r \<Rightarrow>
          (if a = CHR '' '' \<and> is_digit b \<and> 1 \<le> digit_val b then [(digit_val b, r)] else [])
      | _ \<Rightarrow> [])"

text \<open>All ways the regular expression matches a prefix, in the matcher's search order:
  (year, month, day, unconverted rest).\<close>

definition regex_matches :: "string \<Rightarrow> (nat \<times> nat \<times> nat \<times> string) list" where
  "regex_matches s =
     (case s of
        y1 # y2 # y3 # y4 # dash # r \<Rightarrow>
          (if is_digit y1 \<and> is_digit y2 \<and> is_digit y3 \<and> is_digit y4 \<and> dash = CHR ''-''
           then concat (map (\<lambda>(m, r1).
                  (case r1 of
                     [] \<Rightarrow> []
                   | c # r2 \<Rightarrow>
                       (if c = CHR ''-''
                        then map (\<lambda>(d, r3).
                               (1000 * digit_val y1 + 100 * digit_val y2 + 10 * digit_val y3 + digit_val y4,
                                m, d, r3)) (day_alts r2)
                        else []))) (month_alts r))
           else [])
      | _ \<Rightarrow> [])"

definition is_leap :: "nat \<Rightarrow> bool" where
  "is_leap y = (y mod 4 = 0 \<and> (y mod 100 \<noteq> 0 \<or> y mod 400 = 0))"

definition days_in_month :: "nat \<Rightarrow> nat \<Rightarrow> nat" where
  "days_in_month y m =
     (if m = 2 then (if is_leap y then 29 else 28)
      else if m = 4 \<or> m = 6 \<or> m = 9 \<or> m = 11 then 30 else 31)"

definition strptime_Ymd :: "string \<Rightarrow> py_error + (nat \<times> nat \<times> nat)" where
  "strptime_Ymd s =
     (case regex_matches s of
        [] \<Rightarrow> Inl (ValueError ''time data does not match format'')
      | (y, m, d, rest) # _ \<Rightarrow>
          (if rest \<noteq> [] then Inl (ValueError ''unconverted data remains'')
           else if y < 1 then Inl (ValueError ''year is out of range'')
           else if days_in_month y m < d then Inl (ValueError ''day is out of range for month'')
           else Inr (y, m, d)))"

subsection \<open>\<open>validate_date\<close>\<close>

text \<open>The handler \<open>except ValueError\<close> turns that exception into \<open>False\<close>; any other
  exception would leave the function.\<close>

definition validate_date :: "string \<Rightarrow> py_error + bool" where
  "validate_date date_str =
     (case strptime_Ymd date_str of
        Inr _ \<Rightarrow> Inr True
      | Inl (ValueError _) \<Rightarrow> Inr False
      | Inl e \<Rightarrow> Inl e)"






subsection \<open>String operations of the Python library\<close>

definition startswith :: "string \<Rightarrow> string \<Rightarrow> bool" where
  "startswith s p = prefix p s"

text \<open>\<open>s.split(c)\<close> for a one-character separator: never empty.\<close>

fun split_char :: "char \<Rightarrow> string \<Rightarrow> string list" where
  "split_char c [] = [[]]"
| "split_char c (x # xs) =
     (if x = c then [] # split_char c xs
      else (case split_char c xs of [] \<Rightarrow> [[x]] | y # ys \<Rightarrow> (x # y) # ys))"

definition py_index :: "'a list \<Rightarrow> nat \<Rightarrow> py_error + 'a" where
  "py_index xs i = (if i < length xs then Inr (xs ! i) else Inl IndexError)"

text \<open>\<open>s.rsplit(c, 1)\<close>: split at the last occurrence of \<open>c\<close>, if there is one.\<close>

definition rsplit1 :: "char \<Rightarrow> string \<Rightarrow> string list" where
  "rsplit1 c s =
     (if c \<in> set s
      then [rev (tl (dropWhile (\<lambda>x. x \<noteq> c) (rev s))), rev (takeWhile (\<lambda>x. x \<noteq> c) (rev s))]
      else [s])"

definition lower_char :: "char \<Rightarrow> char" where
  "lower_char c =
     (let n = (of_char c :: nat)
      in if (65 \<le> n \<and> n \<le> 90) \<or> (192 \<le> n \<and> n \<le> 222 \<and> n \<noteq> 215) then char_of (n + 32) else c)"

definition lower :: "string \<Rightarrow> string" where
  "lower s = map lower_char s"

definition replace_char :: "char \<Rightarrow> char \<Rightarrow> string \<Rightarrow> string" where
  "replace_char old new s = map (\<lambda>c. if c = old then new else c) s"

text \<open>\<open>s.replace(old, new)\<close> for a non-empty \<open>old\<close>: left to right, without overlap.\<close>

function replace_str :: "string \<Rightarrow> string \<Rightarrow> string \<Rightarrow> string" where
  "replace_str old new s =
     (if s = [] \<or> old = [] then s
      else if prefix old s then new @ replace_str old new (drop (length old) s)
      else hd s # replace_str old new (tl s))"
  by pat_completeness auto
termination
  by (relation "measure (\<lambda>(old, new, s). length s)") auto

text \<open>\<open>str.isspace\<close> on the code points below 256, and \<open>str.strip()\<close>.\<close>

definition is_space :: "char \<Rightarrow> bool" where
  "is_space c =
     (let n = (of_char c :: nat)
      in (9 \<le> n \<and> n \<le> 13) \<or> (28 \<le> n \<and> n \<le> 32) \<or> n = 133 \<or> n = 160)"

definition strip :: "string \<Rightarrow> string" where
  "strip s = rev (dropWhile is_space (rev (dropWhile is_space s)))"

text \<open>\<open>html.escape\<close>, quotes included.\<close>

definition escape_char :: "char \<Rightarrow> string" where
  "escape_char c =
     (if c = CHR ''&'' then ''&amp;''
      else if c = CHR ''<'' then ''&lt;''
      else if c = CHR ''>'' then ''&gt;''
      else if c = CHR 0x22 then ''&quot;''
      else if c = CHR 0x27 then ''&#x27;''
      else [c])"

definition escape :: "string \<Rightarrow> string" where
  "escape s = concat (map escape_char s)"

text \<open>\<open>str.title()\<close> on ASCII text: the first letter of every run of letters in upper
  case, the others in lower case.\<close>

definition is_ascii_letter :: "char \<Rightarrow> bool" where
  "is_ascii_letter c =
     (let n = (of_char c :: nat) in (65 \<le> n \<and> n \<le> 90) \<or> (97 \<le> n \<and> n \<le> 122))"

definition upper_char :: "char \<Rightarrow> char" where
  "upper_char c =
     (let n = (of_char c :: nat) in if 97 \<le> n \<and> n \<le> 122 then char_of (n - 32) else c)"

fun title_from :: "bool \<Rightarrow> string \<Rightarrow> string" where
  "title_from prev [] = []"
| "title_from prev (c # cs) =
     (if is_ascii_letter c
      then (if prev then lower_char c else upper_char c) # title_from True cs
      else c # title_from False cs)"

definition title :: "string \<Rightarrow> string" where
  "title s = title_from False s"

text \<open>Dictionaries keep their insertion order: association lists, read with
  \<^const>\<open>map_of\<close> and written with \<^const>\<open>AList.update\<close>.\<close>

type_synonym 'v dict = "(string \<times> 'v) list"

definition dict_get :: "'v dict \<Rightarrow> string \<Rightarrow> 'v \<Rightarrow> 'v" where
  "dict_get d k dflt = (case map_of d k of None \<Rightarrow> dflt | Some v \<Rightarrow> v)"

definition dict_keys :: "'v dict \<Rightarrow> string set" where
  "dict_keys d = fst ` set d"

subsection \<open>\<open>allowed_file\<close> and \<open>sanitize_input\<close>\<close>

definition ALLOWED_EXTENSIONS :: "string set" where
  "ALLOWED_EXTENSIONS = {''png'', ''jpg'', ''jpeg''}"

definition allowed_file :: "string \<Rightarrow> bool" where
  "allowed_file filename =
     (CHR ''.'' \<in> set filename \<and> lower (rsplit1 CHR ''.'' filename ! 1) \<in> ALLOWED_EXTENSIONS)"

definition sanitize_input :: "string \<Rightarrow> string" where
  "sanitize_input input_str = (if input_str = [] then [] else escape (strip input_str))"

section \<open>The environment: files, processes, random identifiers\<close>

text \<open>
  The file system maps a path to a regular file with its bytes or to a directory. Paths
  are compared as strings (POSIX conventions, no normalisation). The operations follow
  the library calls the program makes: \<open>os.path.exists\<close>, \<open>open(p, 'wb')\<close> with a
  write, \<open>open(p, 'rb')\<close> with a read, \<open>os.unlink\<close>, \<open>shutil.rmtree\<close> and
  \<open>os.path.join\<close>.
\<close>

datatype node = File bytes | Dir

type_synonym filesystem = "path \<Rightarrow> node option"

definition path_exists :: "filesystem \<Rightarrow> path \<Rightarrow> bool" where
  "path_exists fs p = (fs p \<noteq> None)"


definition parent_dir :: "path \<Rightarrow> path option" where
  "parent_dir p =
     (if CHR ''/'' \<in> set p then Some (rev (tl (dropWhile (\<lambda>c. c \<noteq> CHR ''/'') (rev p))))
      else None)"

definition write_file :: "filesystem \<Rightarrow> path \<Rightarrow> bytes \<Rightarrow> py_error + filesystem" where
  "write_file fs p b =
     (if p = [] then Inl (FileNotFoundError p)
      else if fs p = Some Dir then Inl (IsADirectoryError p)
      else (case parent_dir p of
              None \<Rightarrow> Inr (fs(p \<mapsto> File b))
            | Some d \<Rightarrow>
                (if d = [] \<or> fs d = Some Dir then Inr (fs(p \<mapsto> File b))
                 else if fs d = None then Inl (FileNotFoundError p)
                 else Inl (NotADirectoryError p))))"

definition read_file :: "filesystem \<Rightarrow> path \<Rightarrow> py_error + bytes" where
  "read_file fs p =
     (case fs p of
        Some (File b) \<Rightarrow> Inr b
      | Some Dir \<Rightarrow> Inl (IsADirectoryError p)
      | None \<Rightarrow> Inl (FileNotFoundError p))"

definition unlink :: "filesystem \<Rightarrow> path \<Rightarrow> py_error + filesystem" where
  "unlink fs p =
     (case fs p of
        Some (File b) \<Rightarrow> Inr (fs(p := None))
      | Some Dir \<Rightarrow> Inl (IsADirectoryError p)
      | None \<Rightarrow> Inl (FileNotFoundError p))"

definition is_under :: "path \<Rightarrow> path \<Rightarrow> bool" where
  "is_under d p = (p = d \<or> prefix (d @ ''/'') p)"

definition rmtree :: "filesystem \<Rightarrow> path \<Rightarrow> py_error + filesystem" where
  "rmtree fs d =
     (case fs d of
        Some Dir \<Rightarrow> Inr (\<lambda>p. if is_under d p then None else fs p)
      | Some (File b) \<Rightarrow> Inl (NotADirectoryError d)
      | None \<Rightarrow> Inl (FileNotFoundError d))"

definition path_join :: "path \<Rightarrow> string \<Rightarrow> path" where
  "path_join a b =
     (if startswith b ''/'' then b
      else if a = [] \<or> last a = CHR ''/'' then a @ b
      else a @ ''/'' @ b)"

text \<open>What \<open>subprocess.run\<close> can come back with: the process ended with a return code
  and its captured output, or it could not be started.\<close>

datatype proc_result = Completed int string string | Spawn_failed py_error

subsection \<open>\<open>base64.b64decode\<close>\<close>

text \<open>
  The library call with its default \<open>validate=False\<close>, after CPython's
  \<open>binascii.a2b_base64\<close>: a string with a non-ASCII character is a \<open>ValueError\<close>;
  characters outside the base64 alphabet are skipped; a pad character ends the input
  once the current quad is complete; input that ends inside a quad is a
  \<open>binascii.Error\<close>.
\<close>

definition b64_value :: "char \<Rightarrow> nat option" where
  "b64_value c =
     (let n = (of_char c :: nat)
      in if 65 \<le> n \<and> n \<le> 90 then Some (n - 65)
         else if 97 \<le> n \<and> n \<le> 122 then Some (n - 71)
         else if 48 \<le> n \<and> n \<le> 57 then Some (n + 4)
         else if n = 43 then Some 62
         else if n = 47 then Some 63
         else None)"

fun a2b_base64 :: "nat \<Rightarrow> nat \<Rightarrow> nat \<Rightarrow> bytes \<Rightarrow> string \<Rightarrow> py_error + bytes" where
  "a2b_base64 quad_pos leftchar pads out [] =
     (if quad_pos = 0 then Inr out
      else if quad_pos = 1
        then Inl (Binascii_Error ''Invalid base64-encoded string: number of data characters cannot be 1 more than a multiple of 4'')
      else Inl (Binascii_Error ''Incorrect padding''))"
| "a2b_base64 quad_pos leftchar pads out (c # cs) =
     (if c = CHR ''=''
      then (if 2 \<le> quad_pos \<and> 4 \<le> quad_pos + (pads + 1) then Inr out
            else a2b_base64 quad_pos leftchar (if 2 \<le> quad_pos then pads + 1 else pads) out cs)
      else (case b64_value c of
              None \<Rightarrow> a2b_base64 quad_pos leftchar pads out cs
            | Some v \<Rightarrow>
                (if quad_pos = 0 then a2b_base64 1 v 0 out cs
                 else if quad_pos = 1
                   then a2b_base64 2 (v mod 16) 0 (out @ [char_of (leftchar * 4 + v div 16)]) cs
                 else if quad_pos = 2
                   then a2b_base64 3 (v mod 4) 0 (out @ [char_of (leftchar * 16 + v div 4)]) cs
                 else a2b_base64 0 0 0 (out @ [char_of (leftchar * 64 + v)]) cs)))"

definition b64decode :: "string \<Rightarrow> py_error + bytes" where
  "b64decode s =
     (if \<exists>c \<in> set s. 128 \<le> (of_char c :: nat)
      then Inl (ValueError ''string argument should contain only ASCII characters'')
      else a2b_base64 0 0 0 [] s)"

text \<open>The strict alphabet of base64: letters, digits, \<open>+\<close>, \<open>/\<close> and the pad \<open>=\<close>.\<close>

definition in_b64_alphabet :: "char \<Rightarrow> bool" where
  "in_b64_alphabet c = (b64_value c \<noteq> None \<or> c = CHR ''='')"

section \<open>Session state\<close>

text \<open>
  The Flask session is a dictionary; each key the program uses is a field that is
  \<open>None\<close> while the key is absent. \<open>modified\<close> is the flag the program sets by hand
  after changing a nested dictionary. Flash messages are part of a handler's response.
\<close>

record session_user =
  user_id :: json
  user_name :: json
  user_role :: json

record session =
  user :: "session_user option"
  cookies :: "string dict option"
  form_data :: "string dict option"
  aribaNetworkId :: "string option"
  pdfs :: "path dict option"
  docxs :: "path dict option"
  signatures :: "path dict option"
  edit_history :: "path dict option"
  modified :: bool

definition empty_session :: session where
  "empty_session =
     \<lparr>user = None, cookies = None, form_data = None, aribaNetworkId = None, pdfs = None,
      docxs = None, signatures = None, edit_history = None, modified = True\<rparr>"

text \<open>\<open>session.get(key, {})\<close> for a dictionary-valued key.\<close>

definition registry :: "path dict option \<Rightarrow> path dict" where
  "registry r = (case r of None \<Rightarrow> [] | Some d \<Rightarrow> d)"

text \<open>The four storage directories of \<open>app.config\<close>, under the working directory.\<close>

definition DOCX_DIR :: "path \<Rightarrow> path" where
  "DOCX_DIR cwd = path_join cwd ''temp_docx''"

definition OUTPUT_DIR :: "path \<Rightarrow> path" where
  "OUTPUT_DIR cwd = path_join cwd ''temp_pdf''"

definition SIGNATURE_DIR :: "path \<Rightarrow> path" where
  "SIGNATURE_DIR cwd = path_join cwd ''temp_signatures''"

definition EDIT_HISTORY_DIR :: "path \<Rightarrow> path" where
  "EDIT_HISTORY_DIR cwd = path_join cwd ''edit_history''"

section \<open>Signature store\<close>

text \<open>
  \<open>save_signature(data, prefix, is_file)\<close>. The argument \<open>data\<close> is whatever the caller
  passes: nothing, a string, or an uploaded file with its client-side file name and its
  bytes. \<open>uid\<close> is the value of \<open>uuid.uuid4().hex\<close>. The body of the outer \<open>try\<close>
  is \<open>save_signature_try\<close>; \<open>save_signature\<close> adds the handler that turns every
  exception into the result \<open>None\<close>.
\<close>

record upload =
  upload_filename :: "string option"
  upload_stream :: bytes

datatype py_value = PNone | PStr string | PFile upload

definition signature_filename :: "string \<Rightarrow> string \<Rightarrow> string" where
  "signature_filename pfx uid = pfx @ ''_'' @ uid @ ''.png''"

definition signature_filepath :: "path \<Rightarrow> string \<Rightarrow> string \<Rightarrow> path" where
  "signature_filepath cwd pfx uid =
     replace_char CHR 0x5C CHR ''/'' (path_join (SIGNATURE_DIR cwd) (signature_filename pfx uid))"

text \<open>Lines 92 to 100: the existence check and the entry in the session.\<close>

definition register_signature ::
  "string \<Rightarrow> path \<Rightarrow> session \<Rightarrow> filesystem \<Rightarrow> (py_error + string option) \<times> session \<times> filesystem" where
  "register_signature filename filepath s fs =
     (if \<not> path_exists fs filepath then (Inr None, s, fs)
      else (Inr (Some filename),
            s\<lparr>signatures := Some (AList.update filename filepath (registry (signatures s))),
              modified := True\<rparr>,
            fs))"

definition save_signature_try ::
  "path \<Rightarrow> string \<Rightarrow> py_value \<Rightarrow> string \<Rightarrow> bool \<Rightarrow> session \<Rightarrow> filesystem
     \<Rightarrow> (py_error + string option) \<times> session \<times> filesystem" where
  "save_signature_try cwd uid data pfx is_file_flag s fs =
     (let filename = signature_filename pfx uid;
          filepath = signature_filepath cwd pfx uid
      in if is_file_flag then
           (case data of
              PFile u \<Rightarrow>
                (case upload_filename u of
                   None \<Rightarrow> (Inl TypeError, s, fs)
                 | Some n \<Rightarrow>
                     (if \<not> allowed_file n then (Inr None, s, fs)
                      else (case write_file fs filepath (upload_stream u) of
                              Inl e \<Rightarrow> (Inl e, s, fs)
                            | Inr fs' \<Rightarrow> register_signature filename filepath s fs')))
            | _ \<Rightarrow> (Inl AttributeError, s, fs))
         else
           (case data of
              PStr d \<Rightarrow>
                (if d = [] \<or> \<not> startswith d ''data:image'' then (Inr None, s, fs)
                 else if CHR '','' \<notin> set d then (Inr None, s, fs)
                 else (case py_index (split_char CHR '','' d) 1 of
                         Inl e \<Rightarrow> (Inr None, s, fs)
                       | Inr payload \<Rightarrow>
                           (case b64decode payload of
                              Inl (Binascii_Error m) \<Rightarrow> (Inr None, s, fs)
                            | Inl e \<Rightarrow> (Inl e, s, fs)
                            | Inr img_data \<Rightarrow>
                                (case write_file fs filepath img_data of
                                   Inl e \<Rightarrow> (Inl e, s, fs)
                                 | Inr fs' \<Rightarrow> register_signature filename filepath s fs'))))
            | _ \<Rightarrow> (Inr None, s, fs)))"

definition save_signature ::
  "path \<Rightarrow> string \<Rightarrow> py_value \<Rightarrow> string \<Rightarrow> bool \<Rightarrow> session \<Rightarrow> filesystem
     \<Rightarrow> string option \<times> session \<times> filesystem" where
  "save_signature cwd uid data pfx is_file_flag s fs =
     (case save_signature_try cwd uid data pfx is_file_flag s fs of
        (Inl e, s', fs') \<Rightarrow> (None, s', fs')
      | (Inr r, s', fs') \<Rightarrow> (r, s', fs'))"

text \<open>When \<open>open(p, 'wb')\<close> succeeds, and the payload of an inline data URI: the text
  after the first comma, and its first comma-free segment, which is what
  \<open>data.split(',')[1]\<close> selects.\<close>

definition can_write :: "filesystem \<Rightarrow> path \<Rightarrow> bool" where
  "can_write fs p =
     (p \<noteq> [] \<and> fs p \<noteq> Some Dir \<and>
      (case parent_dir p of None \<Rightarrow> True | Some d \<Rightarrow> d = [] \<or> fs d = Some Dir))"

definition after_first_comma :: "string \<Rightarrow> string" where
  "after_first_comma d = tl (dropWhile (\<lambda>c. c \<noteq> CHR '','') d)"

definition payload_segment :: "string \<Rightarrow> string" where
  "payload_segment d = takeWhile (\<lambda>c. c \<noteq> CHR '','') (after_first_comma d)"

section \<open>Collaborators\<close>

text \<open>
  What the program calls and does not define is a field of \<open>env\<close>: the working directory
  at start-up, the serialisation of a document by \<open>doc.save\<close>, whether the document
  library recognises an image, the converter process started by \<open>subprocess.run\<close> (it
  gets the argument list and may change any file), the JSON codec of the history log, and
  the two calls to the authentication service.
\<close>

record signature_cell =
  cell_text :: string
  picture :: bytes

text \<open>The agreement's headings and clauses are constant text around the field values of
  the content mapping; \<open>Agreement_text\<close> carries those values in the order the template
  first uses them. The signature table has a left cell for the customer and a right cell for
  the provider.\<close>

datatype block =
    Agreement_text "string list"
  | Signature_table "signature_cell option" "signature_cell option"

record history_entry =
  entry_timestamp :: string
  entry_username :: json
  fields_updated :: "string dict"
  chervic_added :: bool
  customer_added :: bool

datatype http_result =
    Http_error string
  | Http_response nat "json option" "string dict"

record env =
  env_cwd :: path
  render_docx :: "block list \<Rightarrow> bytes"
  image_ok :: "bytes \<Rightarrow> bool"
  converter :: "string list \<Rightarrow> filesystem \<Rightarrow> proc_result \<times> filesystem"
  json_load :: "bytes \<Rightarrow> py_error + history_entry list"
  json_dump :: "history_entry list \<Rightarrow> bytes"
  post_login :: "string \<Rightarrow> string \<Rightarrow> http_result"
  get_role :: "string dict \<Rightarrow> http_result"

section \<open>Document assembler\<close>

text \<open>The loop of lines 138 to 142 over the two signature keys.\<close>

fun check_signature_files :: "filesystem \<Rightarrow> string dict \<Rightarrow> string list \<Rightarrow> py_error + unit" where
  "check_signature_files fs content [] = Inr ()"
| "check_signature_files fs content (sig_key # keys) =
     (case map_of content sig_key of
        Some p \<Rightarrow>
          (if \<not> path_exists fs p then Inl (FileNotFoundError (''Signature file not found: '' @ p))
           else check_signature_files fs content keys)
      | None \<Rightarrow> check_signature_files fs content keys)"

text \<open>\<open>content.get(key)\<close> read as a condition: present and not empty.\<close>

definition truthy_get :: "string dict \<Rightarrow> string \<Rightarrow> bool" where
  "truthy_get content k = (case map_of content k of None \<Rightarrow> False | Some v \<Rightarrow> v \<noteq> [])"

text \<open>\<open>run.add_picture(path, width=Inches(2))\<close> opens the file and embeds its bytes.\<close>

definition add_picture :: "env \<Rightarrow> filesystem \<Rightarrow> string \<Rightarrow> path \<Rightarrow> py_error + signature_cell" where
  "add_picture env fs txt p =
     (case read_file fs p of
        Inl e \<Rightarrow> Inl e
      | Inr b \<Rightarrow>
          (if image_ok env b then Inr \<lparr>cell_text = txt, picture = b\<rparr>
           else Inl (UnrecognizedImageError p)))"

definition table_cell ::
  "env \<Rightarrow> filesystem \<Rightarrow> string dict \<Rightarrow> string \<Rightarrow> string \<Rightarrow> py_error + signature_cell option" where
  "table_cell env fs content k txt =
     (if truthy_get content k
      then (case add_picture env fs txt (dict_get content k []) of
              Inl e \<Rightarrow> Inl e
            | Inr c \<Rightarrow> Inr (Some c))
      else Inr None)"

definition create_document :: "env \<Rightarrow> filesystem \<Rightarrow> string dict \<Rightarrow> py_error + bytes" where
  "create_document env fs content =
     (case check_signature_files fs content [''customer_signature'', ''chervic_signature''] of
        Inl e \<Rightarrow> Inl e
      | Inr u \<Rightarrow>
          (let company_name = dict_get content ''name'' ''Company Name'';
               start_date = dict_get content ''start_date'' ''Start Date'';
               location_headquarters = dict_get content ''headquartersLocation'' ''Location / Headquarters'';
               business_license_number = dict_get content ''registrationNumber'' ''Business License Number'';
               billing_address = dict_get content ''billingAddress'' ''Billing Address'';
               billing_contact_name = dict_get content ''billing_contact_name'' ''Billing Contact Name'';
               contact_person_designation =
                 dict_get content ''contact_person_designation'' ''Contact person Designation'';
               contact_person_number = dict_get content ''contact_person_number'' ''Contact person number'';
               contact_person_signature_date =
                 dict_get content ''contact_person_sign_date'' ''Contact person Signature Date'';
               cas_signature_date = dict_get content ''chervic_date'' ''CAS Signature Date'';
               billing_email = dict_get content ''billing_email'' ''Billing Email'';
               body = Agreement_text
                 [company_name, start_date, location_headquarters, business_license_number,
                  billing_address, billing_contact_name, contact_person_designation,
                  contact_person_number, billing_email]
           in if truthy_get content ''customer_signature'' \<or> truthy_get content ''chervic_signature''
              then (case table_cell env fs content ''customer_signature''
                           (company_name @ [CHR 0x0A] @ billing_contact_name @ [CHR 0x0A] @
                            ''Designation: '' @ contact_person_designation @ [CHR 0x0A] @
                            ''Date '' @ contact_person_signature_date) of
                      Inl e \<Rightarrow> Inl e
                    | Inr left \<Rightarrow>
                        (case table_cell env fs content ''chervic_signature''
                                (''CHERVIC ADVISORY SERVICES PRIVATE LIMITED'' @ [CHR 0x0A] @
                                 ''Mr. Vasudevan'' @ [CHR 0x0A] @ ''Designation: Director '' @
                                 [CHR 0x0A] @ ''Date: '' @ cas_signature_date) of
                           Inl e \<Rightarrow> Inl e
                         | Inr right \<Rightarrow> Inr (render_docx env [body, Signature_table left right])))
              else Inr (render_docx env [body])))"

section \<open>Format converter\<close>

definition LIBREOFFICE_PATH :: string where
  "LIBREOFFICE_PATH =
     ''program'' @ [CHR 0x5C] @ ''LibreOffice'' @ [CHR 0x5C] @ ''program'' @ [CHR 0x5C] @ ''soffice.exe''"

definition docx_filename :: "string \<Rightarrow> string \<Rightarrow> string" where
  "docx_filename name uid = ''MSA_'' @ replace_char CHR '' '' CHR ''_'' name @ ''_'' @ uid @ ''.docx''"

definition docx_path :: "env \<Rightarrow> string \<Rightarrow> string \<Rightarrow> path" where
  "docx_path env name uid =
     replace_char CHR 0x5C CHR ''/'' (path_join (DOCX_DIR (env_cwd env)) (docx_filename name uid))"

definition pdf_name :: "string \<Rightarrow> string \<Rightarrow> string" where
  "pdf_name name uid = replace_str ''.docx'' ''.pdf'' (docx_filename name uid)"

definition pdf_path :: "env \<Rightarrow> string \<Rightarrow> string \<Rightarrow> path" where
  "pdf_path env name uid =
     replace_char CHR 0x5C CHR ''/'' (path_join (OUTPUT_DIR (env_cwd env)) (pdf_name name uid))"

definition converter_args :: "env \<Rightarrow> path \<Rightarrow> string list" where
  "converter_args env docx_filepath =
     [LIBREOFFICE_PATH, ''--headless'', ''--convert-to'', ''pdf'', ''--outdir'',
      OUTPUT_DIR (env_cwd env), docx_filepath]"

text \<open>The inner \<open>try\<close> of lines 546 to 567: the converter is run with \<open>check=True\<close>, and
  the output file is looked for.\<close>

definition run_converter ::
  "env \<Rightarrow> path \<Rightarrow> path \<Rightarrow> filesystem \<Rightarrow> (py_error + unit) \<times> filesystem" where
  "run_converter env docx_filepath pdf_filepath fs =
     (case converter env (converter_args env docx_filepath) fs of
        (Spawn_failed e, fs') \<Rightarrow> (Inl e, fs')
      | (Completed returncode out err, fs') \<Rightarrow>
          (if returncode \<noteq> 0
           then (Inl (Exception (''PDF conversion failed: stdout='' @ out @ '', stderr='' @ err)), fs')
           else if \<not> path_exists fs' pdf_filepath
             then (Inl (Exception (''PDF file was not generated at '' @ pdf_filepath)), fs')
           else (Inr (), fs')))"

text \<open>The outer \<open>try\<close> of lines 541 to 578.\<close>

definition generate_pdf_try ::
  "env \<Rightarrow> path \<Rightarrow> string \<Rightarrow> path \<Rightarrow> bytes \<Rightarrow> session \<Rightarrow> filesystem
     \<Rightarrow> (py_error + string \<times> bytes) \<times> session \<times> filesystem" where
  "generate_pdf_try env docx_filepath pdf_filename pdf_filepath doc_buffer s fs =
     (case write_file fs docx_filepath doc_buffer of
        Inl e \<Rightarrow> (Inl e, s, fs)
      | Inr fs1 \<Rightarrow>
          (case run_converter env docx_filepath pdf_filepath fs1 of
             (Inl e, fs2) \<Rightarrow> (Inl e, s, fs2)
           | (Inr u, fs2) \<Rightarrow>
               (let s1 = s\<lparr>pdfs := Some (AList.update pdf_filename pdf_filepath (registry (pdfs s))),
                           docxs := Some (AList.update pdf_filename docx_filepath (registry (docxs s))),
                           modified := True\<rparr>
                in (case read_file fs2 pdf_filepath of
                      Inl e \<Rightarrow> (Inl e, s1, fs2)
                    | Inr b \<Rightarrow> (Inr (pdf_filename, b), s1, fs2)))))"

text \<open>The handler of lines 579 to 585: both files are unlinked when they exist, and the
  exception goes on; an exception of \<open>os.unlink\<close> itself takes its place.\<close>

definition unlink_if_exists :: "filesystem \<Rightarrow> path \<Rightarrow> py_error + filesystem" where
  "unlink_if_exists fs p = (if path_exists fs p then unlink fs p else Inr fs)"

definition generate_pdf_cleanup ::
  "py_error \<Rightarrow> path \<Rightarrow> path \<Rightarrow> filesystem \<Rightarrow> py_error \<times> filesystem" where
  "generate_pdf_cleanup e docx_filepath pdf_filepath fs =
     (case unlink_if_exists fs docx_filepath of
        Inl e1 \<Rightarrow> (e1, fs)
      | Inr fs1 \<Rightarrow>
          (case unlink_if_exists fs1 pdf_filepath of
             Inl e2 \<Rightarrow> (e2, fs1)
           | Inr fs2 \<Rightarrow> (e, fs2)))"

definition generate_pdf ::
  "env \<Rightarrow> string \<Rightarrow> string dict \<Rightarrow> session \<Rightarrow> filesystem
     \<Rightarrow> (py_error + string \<times> bytes) \<times> session \<times> filesystem" where
  "generate_pdf env uid content s fs =
     (case create_document env fs content of
        Inl e \<Rightarrow> (Inl e, s, fs)
      | Inr doc_buffer \<Rightarrow>
          (case map_of content ''name'' of
             None \<Rightarrow> (Inl (KeyError ''name''), s, fs)
           | Some name \<Rightarrow>
               (case generate_pdf_try env (docx_path env name uid) (pdf_name name uid)
                       (pdf_path env name uid) doc_buffer s fs of
                  (Inr r, s', fs') \<Rightarrow> (Inr r, s', fs')
                | (Inl e, s', fs') \<Rightarrow>
                    (case generate_pdf_cleanup e (docx_path env name uid) (pdf_path env name uid) fs' of
                       (e', fs'') \<Rightarrow> (Inl e', s', fs'')))))"

text \<open>The state in which the converter is started, if it is: the files after the working
  document has been written.\<close>

definition converter_input :: "env \<Rightarrow> string \<Rightarrow> string dict \<Rightarrow> filesystem \<Rightarrow> filesystem option" where
  "converter_input env uid content fs =
     (case create_document env fs content of
        Inl e \<Rightarrow> None
      | Inr doc_buffer \<Rightarrow>
          (case map_of content ''name'' of
             None \<Rightarrow> None
           | Some name \<Rightarrow>
               (case write_file fs (docx_path env name uid) doc_buffer of
                  Inl e \<Rightarrow> None
                | Inr fs1 \<Rightarrow> Some fs1)))"

text \<open>What the converter returns and leaves behind, if it is started.\<close>

definition conversion_outcome ::
  "env \<Rightarrow> string \<Rightarrow> string dict \<Rightarrow> filesystem \<Rightarrow> (proc_result \<times> filesystem) option" where
  "conversion_outcome env uid content fs =
     (case converter_input env uid content fs of
        None \<Rightarrow> None
      | Some fs1 \<Rightarrow>
          Some (converter env (converter_args env (docx_path env (dict_get content ''name'' []) uid)) fs1))"

text \<open>An environment for examples: every document is serialised to the bytes \<open>DOCX\<close>,
  every image is recognised, the history codec and the authentication service are
  trivial, and the converter is the one given.\<close>

definition example_env :: "(string list \<Rightarrow> filesystem \<Rightarrow> proc_result \<times> filesystem) \<Rightarrow> env" where
  "example_env conv =
     \<lparr>env_cwd = ''/app'', render_docx = (\<lambda>blocks. ''DOCX''), image_ok = (\<lambda>b. True),
      converter = conv, json_load = (\<lambda>b. Inr []), json_dump = (\<lambda>h. ''[]''),
      post_login = (\<lambda>u p. Http_error ''unreachable''), get_role = (\<lambda>c. Http_error ''unreachable'')\<rparr>"

definition failing_converter :: "string list \<Rightarrow> filesystem \<Rightarrow> proc_result \<times> filesystem" where
  "failing_converter args fs = (Completed 1 ''out'' ''err'', fs)"

text \<open>A converter that writes the bytes \<open>PDF\<close> to \<open>outdir/stem.pdf\<close> for the input
  \<open>dir/stem.docx\<close>.\<close>

definition working_converter :: "string list \<Rightarrow> filesystem \<Rightarrow> proc_result \<times> filesystem" where
  "working_converter args fs =
     (let outdir = args ! 5;
          input = args ! 6;
          base = rev (takeWhile (\<lambda>c. c \<noteq> CHR ''/'') (rev input));
          stem = take (length base - 5) base
      in (Completed 0 ''convert'' [], fs(outdir @ ''/'' @ stem @ ''.pdf'' \<mapsto> File ''PDF'')))"

section \<open>Auth gateway client\<close>

text \<open>\<open>response.raise_for_status()\<close> and \<open>response.json()\<close>.\<close>

definition raise_for_status :: "http_result \<Rightarrow> request_failure + json option \<times> string dict" where
  "raise_for_status r =
     (case r of
        Http_error m \<Rightarrow> Inl (Connection_failed m)
      | Http_response status body resp_cookies \<Rightarrow>
          (if 400 \<le> status \<and> status < 600 then Inl (Bad_status status) else Inr (body, resp_cookies)))"

definition response_json :: "http_result \<Rightarrow> request_failure + json \<times> string dict" where
  "response_json r =
     (case raise_for_status r of
        Inl f \<Rightarrow> Inl f
      | Inr (None, resp_cookies) \<Rightarrow> Inl Invalid_json
      | Inr (Some j, resp_cookies) \<Rightarrow> Inr (j, resp_cookies))"

text \<open>\<open>d.get(k, dflt)\<close> on a JSON value: only an object has the method.\<close>

definition json_get :: "json \<Rightarrow> string \<Rightarrow> json \<Rightarrow> py_error + json" where
  "json_get j k dflt = (case j of JObj d \<Rightarrow> Inr (dict_get d k dflt) | _ \<Rightarrow> Inl AttributeError)"

definition truthy :: "json \<Rightarrow> bool" where
  "truthy j =
     (case j of
        JNull \<Rightarrow> False
      | JBool b \<Rightarrow> b
      | JNum n \<Rightarrow> n \<noteq> 0
      | JStr x \<Rightarrow> x \<noteq> []
      | JArr xs \<Rightarrow> xs \<noteq> []
      | JObj d \<Rightarrow> d \<noteq> [])"

text \<open>\<open>a or b\<close>.\<close>

definition py_or :: "json \<Rightarrow> json \<Rightarrow> json" where
  "py_or a b = (if truthy a then a else b)"

definition ALLOWED_ROLE :: json where
  "ALLOWED_ROLE = JStr ''BUSINESS_DEVELOPMENT_USER''"

definition fetch_user_info :: "env \<Rightarrow> string dict option \<Rightarrow> session \<Rightarrow> py_error + json" where
  "fetch_user_info env login_cookies s =
     (case (if login_cookies \<noteq> None \<and> login_cookies \<noteq> Some [] then login_cookies else cookies s) of
        None \<Rightarrow> Inl (AuthenticationError No_cookies)
      | Some c \<Rightarrow>
          (case response_json (get_role env c) of
             Inl f \<Rightarrow> Inl (AuthenticationError (Fetch_failed f))
           | Inr (user_info, resp_cookies) \<Rightarrow> Inr user_info))"

text \<open>Lines 623 to 636, once the role has been accepted.\<close>

definition establish_session ::
  "string \<Rightarrow> json \<Rightarrow> string dict \<Rightarrow> json \<Rightarrow> json \<Rightarrow> session \<Rightarrow> (py_error + json) \<times> session" where
  "establish_session username result resp_cookies user_info role s =
     (case json_get result ''user'' (JObj []) of
        Inl e \<Rightarrow> (Inl e, s)
      | Inr user_data \<Rightarrow>
          (case json_get user_data ''id'' JNull of
             Inl e \<Rightarrow> (Inl e, s)
           | Inr id1 \<Rightarrow>
               (case json_get user_data ''userId'' JNull of
                  Inl e \<Rightarrow> (Inl e, s)
                | Inr id2 \<Rightarrow>
                    (case json_get user_info ''id'' JNull of
                       Inl e \<Rightarrow> (Inl e, s)
                     | Inr id3 \<Rightarrow>
                         (case json_get user_info ''userId'' JNull of
                            Inl e \<Rightarrow> (Inl e, s)
                          | Inr id4 \<Rightarrow>
                              (let uid = py_or id1 (py_or id2 (py_or id3 id4))
                               in if \<not> truthy uid then (Inl (AuthenticationError User_id_missing), s)
                                  else (case json_get user_data ''username'' (JStr username) of
                                          Inl e \<Rightarrow> (Inl e, s)
                                        | Inr name \<Rightarrow>
                                            (Inr result,
                                             s\<lparr>user := Some \<lparr>user_id = uid, user_name = name, user_role = role\<rparr>,
                                               cookies := Some (foldl (\<lambda>d (k, v). AList.update k v d) [] resp_cookies),
                                               modified := True\<rparr>))))))))"

definition login_user :: "env \<Rightarrow> string \<Rightarrow> string \<Rightarrow> session \<Rightarrow> (py_error + json) \<times> session" where
  "login_user env username password s =
     (case response_json (post_login env username password) of
        Inl f \<Rightarrow> (Inl (AuthenticationError (Request_failed f)), s)
      | Inr (result, resp_cookies) \<Rightarrow>
          (case fetch_user_info env (Some resp_cookies) s of
             Inl e \<Rightarrow> (Inl e, s)
           | Inr user_info \<Rightarrow>
               (case json_get user_info ''userRole'' JNull of
                  Inl e \<Rightarrow> (Inl e, s)
                | Inr role \<Rightarrow>
                    (if role \<noteq> ALLOWED_ROLE then (Inl (AuthenticationError (Role_not_authorized role)), s)
                     else establish_session username result resp_cookies user_info role s))))"

section \<open>Session artifact registry\<close>

text \<open>The log lines of \<open>logout\<close>: a file of some kind deleted or not, a directory deleted
  or not.\<close>

datatype log_entry =
    Deleted_file string path
  | Delete_file_failed string path py_error
  | Deleted_directory path
  | Delete_directory_failed path py_error


text \<open>One deletion loop of \<open>logout\<close> over the paths of a registry: a path that exists is
  unlinked; a failure is logged and the loop goes on.\<close>

fun delete_files :: "string \<Rightarrow> path list \<Rightarrow> filesystem \<Rightarrow> filesystem \<times> log_entry list" where
  "delete_files kind [] fs = (fs, [])"
| "delete_files kind (p # ps) fs =
     (if path_exists fs p
      then (case unlink fs p of
              Inr fs' \<Rightarrow>
                (case delete_files kind ps fs' of (fs'', lg) \<Rightarrow> (fs'', Deleted_file kind p # lg))
            | Inl e \<Rightarrow>
                (case delete_files kind ps fs of (fs'', lg) \<Rightarrow> (fs'', Delete_file_failed kind p e # lg)))
      else delete_files kind ps fs)"

text \<open>\<open>session[key][filename]\<close> for every \<open>filename\<close> of \<open>session.get(key, {})\<close>.\<close>

definition registered_paths :: "path dict option \<Rightarrow> path list" where
  "registered_paths r = map (\<lambda>filename. dict_get (registry r) filename []) (map fst (registry r))"

definition history_path :: "env \<Rightarrow> string \<Rightarrow> path" where
  "history_path env filename =
     replace_char CHR 0x5C CHR ''/''
       (path_join (EDIT_HISTORY_DIR (env_cwd env)) (filename @ ''_history.json''))"

definition storage_dirs :: "env \<Rightarrow> path list" where
  "storage_dirs env =
     [DOCX_DIR (env_cwd env), OUTPUT_DIR (env_cwd env), SIGNATURE_DIR (env_cwd env),
      EDIT_HISTORY_DIR (env_cwd env)]"

fun remove_dirs :: "path list \<Rightarrow> filesystem \<Rightarrow> filesystem \<times> log_entry list" where
  "remove_dirs [] fs = (fs, [])"
| "remove_dirs (d # ds) fs =
     (if path_exists fs d
      then (case rmtree fs d of
              Inr fs' \<Rightarrow> (case remove_dirs ds fs' of (fs'', lg) \<Rightarrow> (fs'', Deleted_directory d # lg))
            | Inl e \<Rightarrow>
                (case remove_dirs ds fs of (fs'', lg) \<Rightarrow> (fs'', Delete_directory_failed d e # lg)))
      else remove_dirs ds fs)"

text \<open>A response: a redirect with the messages flashed before it, the form page with its
  messages and field values, the form page with the message "Error generating Agreement"
  for an exception, a file sent under a download name, or an exception that leaves the
  handler.\<close>

datatype endpoint = Login | Index | View_pdf string

datatype response =
    Redirect endpoint "(string \<times> string) list"
  | Render_index "(string \<times> string) list" "string dict"
  | Generation_failed py_error "string dict"
  | Send_file path string
  | Server_error py_error

definition logout :: "env \<Rightarrow> session \<Rightarrow> filesystem \<Rightarrow> response \<times> session \<times> filesystem \<times> log_entry list" where
  "logout env s fs =
     (case delete_files ''PDF'' (registered_paths (pdfs s)) fs of
        (fs1, l1) \<Rightarrow>
     (case delete_files ''DOCX'' (registered_paths (docxs s)) fs1 of
        (fs2, l2) \<Rightarrow>
     (case delete_files ''signature'' (registered_paths (signatures s)) fs2 of
        (fs3, l3) \<Rightarrow>
     (case delete_files ''edit history''
             (map (history_path env) (map fst (registry (edit_history s)))) fs3 of
        (fs4, l4) \<Rightarrow>
     (case remove_dirs (storage_dirs env) fs4 of
        (fs5, l5) \<Rightarrow>
          (Redirect Login [(''Logged out successfully.'', ''success'')], empty_session, fs5,
           l1 @ l2 @ l3 @ l4 @ l5))))))"

text \<open>The lookup of the download, view and serve routes: the registered path, unless the
  identifier is unknown, the path is empty or nothing exists there.\<close>

definition lookup :: "path dict option \<Rightarrow> string \<Rightarrow> filesystem \<Rightarrow> path option" where
  "lookup r filename fs =
     (case map_of (registry r) filename of
        None \<Rightarrow> None
      | Some p \<Rightarrow> (if p = [] \<or> \<not> path_exists fs p then None else Some p))"

definition download_pdf :: "session \<Rightarrow> filesystem \<Rightarrow> string \<Rightarrow> response" where
  "download_pdf s fs filename =
     (if user s = None then Redirect Login [(''Please log in to access PDFs.'', ''error'')]
      else (case lookup (pdfs s) filename fs of
              None \<Rightarrow> Redirect Index [(''PDF not found.'', ''error'')]
            | Some p \<Rightarrow>
                (case read_file fs p of
                   Inl e \<Rightarrow> Redirect Index [(''Error downloading PDF.'', ''error'')]
                 | Inr b \<Rightarrow> Send_file p filename)))"

definition download_docx :: "session \<Rightarrow> filesystem \<Rightarrow> string \<Rightarrow> response" where
  "download_docx s fs filename =
     (if user s = None then Redirect Login [(''Please log in to access documents.'', ''error'')]
      else (case lookup (docxs s) filename fs of
              None \<Rightarrow> Redirect Index [(''Document not found.'', ''error'')]
            | Some p \<Rightarrow>
                (case read_file fs p of
                   Inl e \<Rightarrow> Redirect Index [(''Error downloading document.'', ''error'')]
                 | Inr b \<Rightarrow> Send_file p (replace_str ''.pdf'' ''.docx'' filename))))"




section \<open>Edit history\<close>

definition save_edit_history ::
  "env \<Rightarrow> string \<Rightarrow> string \<Rightarrow> json \<Rightarrow> string dict \<Rightarrow> bool \<Rightarrow> bool \<Rightarrow> filesystem \<Rightarrow> filesystem" where
  "save_edit_history env now pdf_filename username changed chervic customer fs =
     (let history_file = history_path env pdf_filename;
          history_entry = \<lparr>entry_timestamp = now, entry_username = username, fields_updated = changed,
                           chervic_added = chervic, customer_added = customer\<rparr>
      in (case (if path_exists fs history_file
                then (case read_file fs history_file of Inl e \<Rightarrow> Inl e | Inr b \<Rightarrow> json_load env b)
                else Inr []) of
            Inl e \<Rightarrow> fs
          | Inr history \<Rightarrow>
              (case write_file fs history_file (json_dump env (history @ [history_entry])) of
                 Inl e \<Rightarrow> fs
               | Inr fs' \<Rightarrow> fs')))"

section \<open>Submission handler\<close>

record request =
  form :: "string dict"
  files :: "upload dict"

definition required_fields :: "string list" where
  "required_fields =
     [''name'', ''websiteUrl'', ''registrationNumber'', ''headquartersLocation'',
      ''countriesOfOperation'', ''businessType'', ''industryType'', ''billingAddress'',
      ''billing_contact_name'', ''billing_email'', ''start_date'',
      ''contact_person_designation'', ''contact_person_number'', ''chervic_date'',
      ''contact_person_sign_date'']"

definition date_fields :: "string list" where
  "date_fields = [''start_date'', ''chervic_date'', ''contact_person_sign_date'']"

definition optional_fields :: "string list" where
  "optional_fields =
     [''chervic_name'', ''chervic_title'', ''customer_sign_name'', ''customer_sign_title'',
      ''agreement_date'']"

text \<open>\<open>field.replace('_', ' ').title()\<close>.\<close>

definition field_label :: "string \<Rightarrow> string" where
  "field_label field = title (replace_char CHR ''_'' CHR '' '' field)"

text \<open>The loop of lines 877 to 882: the first blank field stops it, with the field values
  written so far.\<close>

fun check_required :: "string dict \<Rightarrow> string dict \<Rightarrow> string list \<Rightarrow> string \<times> string dict + string dict" where
  "check_required frm data [] = Inr data"
| "check_required frm data (field # rest) =
     (let v = strip (dict_get frm field [])
      in if v = [] then Inl (field, data)
         else check_required frm (AList.update field (sanitize_input v) data) rest)"

text \<open>The loop of lines 884 to 887: the first date field that does not validate.\<close>

fun check_dates :: "string dict \<Rightarrow> string list \<Rightarrow> py_error + string option" where
  "check_dates data [] = Inr None"
| "check_dates data (field # rest) =
     (case map_of data field of
        None \<Rightarrow> Inl (KeyError field)
      | Some v \<Rightarrow>
          (case validate_date v of
             Inl e \<Rightarrow> Inl e
           | Inr ok \<Rightarrow> (if \<not> ok then Inr (Some field) else check_dates data rest)))"

text \<open>One of the two signature blocks (lines 895 to 913 and 914 to 932): the drawn
  signature if there is one, else the uploaded file if its name is allowed, else an
  error message. The result is the path registered for the stored signature.\<close>

definition signature_step ::
  "path \<Rightarrow> string \<Rightarrow> string \<Rightarrow> string \<Rightarrow> string option \<Rightarrow> upload option \<Rightarrow> session \<Rightarrow> filesystem
     \<Rightarrow> (string + path) \<times> session \<times> filesystem" where
  "signature_step cwd uid pfx label signature_data signature_file s fs =
     (if (case signature_data of None \<Rightarrow> False | Some d \<Rightarrow> d \<noteq> [] \<and> startswith d ''data:image'')
      then (case save_signature cwd uid (case signature_data of None \<Rightarrow> PNone | Some d \<Rightarrow> PStr d)
                   pfx False s fs of
              (Some sig_name, s', fs') \<Rightarrow>
                (Inr (dict_get (registry (signatures s')) sig_name []), s', fs')
            | (None, s', fs') \<Rightarrow>
                (Inl (''Failed to process '' @ label @ '' canvas signature.''), s', fs'))
      else if (case signature_file of
                 None \<Rightarrow> False
               | Some u \<Rightarrow>
                   (case upload_filename u of None \<Rightarrow> False | Some n \<Rightarrow> n \<noteq> [] \<and> allowed_file n))
      then (case save_signature cwd uid (case signature_file of None \<Rightarrow> PNone | Some u \<Rightarrow> PFile u)
                   pfx True s fs of
              (Some sig_name, s', fs') \<Rightarrow>
                (Inr (dict_get (registry (signatures s')) sig_name []), s', fs')
            | (None, s', fs') \<Rightarrow>
                (Inl (''Failed to process '' @ label @ '' file signature.''), s', fs'))
      else (Inl (label @ '' signature is required.''), s, fs))"

text \<open>\<open>data = session.get('form_data', {})\<close> is the dictionary kept in the session when
  there is one, so what the handler writes into \<open>data\<close> is visible in the session;
  otherwise \<open>data\<close> is a new dictionary that the session does not hold.\<close>

definition alias_form_data :: "session \<Rightarrow> string dict \<Rightarrow> session" where
  "alias_form_data s data = (if form_data s = None then s else s\<lparr>form_data := Some data\<rparr>)"

text \<open>Lines 933 to 951: the conversion and the history entry.\<close>

definition submit_agreement ::
  "env \<Rightarrow> string \<Rightarrow> string \<Rightarrow> string dict \<Rightarrow> session \<Rightarrow> filesystem \<Rightarrow> response \<times> session \<times> filesystem" where
  "submit_agreement env now uid data s fs =
     (case generate_pdf env uid data (s\<lparr>form_data := Some data, modified := True\<rparr>) fs of
        (Inl e, s', fs') \<Rightarrow> (Generation_failed e data, s', fs')
      | (Inr (pdf_filename, pdf_buffer), s', fs') \<Rightarrow>
          (case user s' of
             None \<Rightarrow> (Generation_failed (KeyError ''user'') data, s', fs')
           | Some u \<Rightarrow>
               (Redirect (View_pdf pdf_filename) [(''Agreement generated successfully!'', ''success'')],
                s',
                save_edit_history env now pdf_filename (user_name u)
                  (filter (\<lambda>(k, v). k \<in> set (required_fields @ optional_fields)) data)
                  (truthy_get data ''chervic_signature'') (truthy_get data ''customer_signature'') fs')))"

definition generate_nda ::
  "env \<Rightarrow> string \<Rightarrow> string \<Rightarrow> string \<Rightarrow> string \<Rightarrow> request \<Rightarrow> session \<Rightarrow> filesystem
     \<Rightarrow> response \<times> session \<times> filesystem" where
  "generate_nda env now uid1 uid2 uid3 req s fs =
     (if user s = None then (Redirect Login [(''Please log in to continue.'', ''error'')], s, fs)
      else
        (case check_required (form req) (registry (form_data s)) required_fields of
           Inl (field, data) \<Rightarrow>
             (Render_index [(field_label field @ '' is required.'', ''error'')] data,
              alias_form_data s data, fs)
         | Inr data1 \<Rightarrow>
             (case check_dates data1 date_fields of
                Inl e \<Rightarrow> (Server_error e, alias_form_data s data1, fs)
              | Inr (Some field) \<Rightarrow>
                  (Render_index
                     [(''Invalid date format for '' @ field_label field @ ''. Use YYYY-MM-DD.'', ''error'')]
                     data1,
                   alias_form_data s data1, fs)
              | Inr None \<Rightarrow>
                  (let data2 = foldl (\<lambda>d field. AList.update field
                                        (sanitize_input (dict_get (form req) field [])) d)
                                 data1 optional_fields;
                       ariba = sanitize_input
                                 (dict_get (form req) ''aribaNetworkId''
                                    (case aribaNetworkId s of None \<Rightarrow> [] | Some a \<Rightarrow> a));
                       example_fields = AList.update ''aribaNetworkId'' ariba data2;
                       s1 = (if ariba \<noteq> [] then s\<lparr>aribaNetworkId := Some ariba, modified := True\<rparr>
                             else s)
                   in (case signature_step (env_cwd env) uid1 ''chervic'' ''Chervic''
                                (map_of (form req) ''chervic_signature_data'')
                                (map_of (files req) ''chervic_signature'') s1 fs of
                         (Inl msg, s2, fs2) \<Rightarrow>
                           (Render_index [(msg, ''error'')] example_fields, alias_form_data s2 example_fields, fs2)
                       | (Inr chervic_path, s2, fs2) \<Rightarrow>
                           (let data4 = AList.update ''chervic_signature'' chervic_path example_fields
                            in (case signature_step (env_cwd env) uid2 ''customer'' ''Customer''
                                         (map_of (form req) ''contact_person_signature_data'')
                                         (map_of (files req) ''contact_person_signature'') s2 fs2 of
                                  (Inl msg, s3, fs3) \<Rightarrow>
                                    (Render_index [(msg, ''error'')] data4,
                                     alias_form_data s3 data4, fs3)
                                | (Inr customer_path, s3, fs3) \<Rightarrow>
                                    submit_agreement env now uid3
                                      (AList.update ''customer_signature'' customer_path data4)
                                      s3 fs3)))))))"


section \<open>The session over a sequence of requests\<close>

text \<open>
  The sessions that requests can lead to, from the empty session of a new browser
  session: a login attempt, a submission, a logout, each with any inputs, any files on
  disk and any identifiers drawn. The form page and the domain-data route write only the
  keys \<open>form_data\<close> and \<open>aribaNetworkId\<close>; they are covered by a step that sets these two
  keys to any values. The \<open>modified\<close> flag starts afresh with every request.
\<close>

inductive reachable :: "env \<Rightarrow> session \<Rightarrow> bool" for env :: env where
  start: "reachable env empty_session"
| login: "reachable env s \<Longrightarrow> login_user env username password s = (r, s') \<Longrightarrow> reachable env s'"
| submit:
    "reachable env s \<Longrightarrow> generate_nda env now uid1 uid2 uid3 req s fs = (resp, s', fs')
       \<Longrightarrow> reachable env s'"
| leave: "reachable env s \<Longrightarrow> logout env s fs = (resp, s', fs', lg) \<Longrightarrow> reachable env s'"
| fill: "reachable env s \<Longrightarrow> reachable env (s\<lparr>form_data := fd, aribaNetworkId := a\<rparr>)"
| flag: "reachable env s \<Longrightarrow> reachable env (s\<lparr>modified := b\<rparr>)"

text \<open>The two artifact registries have the same keys.\<close>

definition registries_aligned :: "session \<Rightarrow> bool" where
  "registries_aligned s = (dict_keys (registry (pdfs s)) = dict_keys (registry (docxs s)))"

text \<open>An example: an authentication service that accepts every login with the allowed
  role, a form with every required field and two drawn signatures, and a disk with the
  four storage directories.\<close>

definition accepting_env :: env where
  "accepting_env =
     (example_env working_converter)
       \<lparr>post_login := (\<lambda>u p. Http_response 200 (Some (JObj [(''user'', JObj [(''id'', JNum 7)])]))
                                 [(''sid'', ''abc'')]),
        get_role := (\<lambda>c. Http_response 200 (Some (JObj [(''userRole'', JStr ''BUSINESS_DEVELOPMENT_USER'')])) [])\<rparr>"

definition example_form :: "string dict" where
  "example_form =
     [(''name'', ''Acme Ltd''), (''websiteUrl'', ''https://acme.test''),
      (''registrationNumber'', ''R-1''), (''headquartersLocation'', ''Pune''),
      (''countriesOfOperation'', ''India''), (''businessType'', ''IT''),
      (''industryType'', ''Software''), (''billingAddress'', ''1 Main St''),
      (''billing_contact_name'', ''Bob''), (''billing_email'', ''bob@acme.test''),
      (''start_date'', ''2024-01-01''), (''contact_person_designation'', ''CFO''),
      (''contact_person_number'', ''12345''), (''chervic_date'', ''2024-01-02''),
      (''contact_person_sign_date'', ''2024-01-03''),
      (''chervic_signature_data'', ''data:image/png;base64,QUJD''),
      (''contact_person_signature_data'', ''data:image/png;base64,REVG'')]"

definition example_disk :: filesystem where
  "example_disk =
     [''/app/temp_docx'' \<mapsto> Dir, ''/app/temp_pdf'' \<mapsto> Dir, ''/app/temp_signatures'' \<mapsto> Dir,
      ''/app/edit_history'' \<mapsto> Dir]"

definition logged_in_session :: session where
  "logged_in_session =
     empty_session
       \<lparr>user := Some \<lparr>user_id = JNum 7, user_name = JStr ''alice'',
                       user_role = JStr ''BUSINESS_DEVELOPMENT_USER''\<rparr>,
        cookies := Some [(''sid'', ''abc'')], modified := True\<rparr>"

text \<open>The field values of the example after the required and optional fields have
  been read, and after both signatures have been stored; the disk after the two
  signatures; the session after the submission.\<close>

definition example_fields :: "string dict" where
  "example_fields = take 15 example_form @ [(''chervic_name'', []), (''chervic_title'', []), (''customer_sign_name'', []),
      (''customer_sign_title'', []), (''agreement_date'', []), (''aribaNetworkId'', [])]"

definition example_content :: "string dict" where
  "example_content = example_fields @ [(''chervic_signature'', ''/app/temp_signatures/chervic_u1.png''),
                    (''customer_signature'', ''/app/temp_signatures/customer_u2.png'')]"

definition signed_disk :: filesystem where
  "signed_disk = example_disk(''/app/temp_signatures/chervic_u1.png'' \<mapsto> File ''ABC'',
                 ''/app/temp_signatures/customer_u2.png'' \<mapsto> File ''DEF'')"

definition final_session :: session where
  "final_session =
     logged_in_session
       \<lparr>form_data := Some example_content,
        pdfs := Some [(''MSA_Acme_Ltd_u3.pdf'', ''/app/temp_pdf/MSA_Acme_Ltd_u3.pdf'')],
        docxs := Some [(''MSA_Acme_Ltd_u3.pdf'', ''/app/temp_docx/MSA_Acme_Ltd_u3.docx'')],
        signatures := Some [(''chervic_u1.png'', ''/app/temp_signatures/chervic_u1.png''),
                            (''customer_u2.png'', ''/app/temp_signatures/customer_u2.png'')],
        modified := True\<rparr>"

section \<open>Properties of the date check\<close>

lemma dash_not_digit [simp]: "\<not> is_digit CHR ''-''"
  by (simp add: is_digit_def)
lemma sp_not_digit [simp]: "\<not> is_digit CHR '' ''"
  by (simp add: is_digit_def)














section \<open>Properties of the signature store\<close>

lemma write_file_can_write: "can_write fs p \<Longrightarrow> write_file fs p b = Inr (fs(p \<mapsto> File b))"
  by (auto simp: can_write_def write_file_def split: option.splits)

lemma write_file_Inr: "write_file fs p b = Inr fs' \<Longrightarrow> fs' = fs(p \<mapsto> File b)"
  by (auto simp: write_file_def split: option.splits if_splits)

lemma split_char_nonempty: "split_char c s \<noteq> []"
  by (induction s) (auto split: list.splits)

lemma split_char_hd: "hd (split_char c s) = takeWhile (\<lambda>x. x \<noteq> c) s"
  by (induction s) (auto split: list.splits simp: split_char_nonempty)

lemma split_char_tl:
  "c \<in> set s \<Longrightarrow> tl (split_char c s) = split_char c (tl (dropWhile (\<lambda>x. x \<noteq> c) s))"
  by (induction s) (auto split: list.splits simp: split_char_nonempty)

lemma split_char_second:
  assumes "c \<in> set s"
  shows "py_index (split_char c s) (Suc 0) = Inr (takeWhile (\<lambda>x. x \<noteq> c) (tl (dropWhile (\<lambda>x. x \<noteq> c) s)))"
proof -
  let ?rest = "tl (dropWhile (\<lambda>x. x \<noteq> c) s)"
  obtain a r where ar: "split_char c s = a # r"
    using split_char_nonempty[of c s] by (cases "split_char c s") auto
  obtain b r' where br: "split_char c ?rest = b # r'"
    using split_char_nonempty[of c ?rest] by (cases "split_char c ?rest") auto
  have r: "r = b # r'" using split_char_tl[OF assms] ar br by simp
  have "b = takeWhile (\<lambda>x. x \<noteq> c) ?rest"
    using split_char_hd[of c ?rest] br by simp
  then show ?thesis using ar r by (simp add: py_index_def)
qed

lemma save_signature_failure_frame:
  "save_signature cwd uid data pfx fl s fs = (None, s', fs') \<Longrightarrow> s' = s"
  unfolding save_signature_def save_signature_try_def register_signature_def Let_def
  by (auto split: py_value.splits option.splits if_splits sum.splits py_error.splits prod.splits)

lemma save_signature_success:
  assumes "save_signature cwd uid data pfx fl s fs = (Some fn, s', fs')"
  shows "fn = signature_filename pfx uid \<and>
         s' = s\<lparr>signatures := Some (AList.update fn (signature_filepath cwd pfx uid) (registry (signatures s))), modified := True\<rparr> \<and>
         (\<exists>b. fs' = fs(signature_filepath cwd pfx uid \<mapsto> File b) \<and>
              (fl \<longrightarrow> (\<exists>u. data = PFile u \<and> b = upload_stream u)) \<and>
              (\<not> fl \<longrightarrow> (\<exists>d. data = PStr d \<and> b64decode (payload_segment d) = Inr b)))"
  using assms
  unfolding save_signature_def save_signature_try_def register_signature_def Let_def
  by (auto split: py_value.splits option.splits if_splits sum.splits py_error.splits prod.splits
      dest!: write_file_Inr simp: split_char_second payload_segment_def after_first_comma_def)

lemma canvas_store:
  assumes "startswith d ''data:image''" "CHR '','' \<in> set d" "b64decode (payload_segment d) = Inr img"
    "can_write fs (signature_filepath cwd pfx uid)"
  shows "save_signature cwd uid (PStr d) pfx False s fs =
           (Some (signature_filename pfx uid),
            s\<lparr>signatures := Some (AList.update (signature_filename pfx uid) (signature_filepath cwd pfx uid) (registry (signatures s))), modified := True\<rparr>,
            fs(signature_filepath cwd pfx uid \<mapsto> File img))"
proof -
  have "d \<noteq> []" using assms(2) by auto
  then show ?thesis using assms
    unfolding save_signature_def save_signature_try_def register_signature_def Let_def
    by (simp add: split_char_second payload_segment_def[symmetric, unfolded after_first_comma_def] write_file_can_write path_exists_def)
qed

lemma canvas_reject:
  assumes "b64decode (payload_segment d) = Inl e"
  shows "save_signature cwd uid (PStr d) pfx False s fs = (None, s, fs)"
  using assms
  unfolding save_signature_def save_signature_try_def register_signature_def Let_def
  by (auto split: py_value.splits option.splits if_splits sum.splits py_error.splits prod.splits
       simp: split_char_second payload_segment_def after_first_comma_def)

lemma allowed_file_ext:
  assumes "ext \<in> {''png'', ''jpg'', ''jpeg''}"
  shows "allowed_file (stem @ ''.'' @ ext)"
proof -
  have nodot: "CHR ''.'' \<notin> set ext" using assms by auto
  have "rev (stem @ ''.'' @ ext) = rev ext @ CHR ''.'' # rev stem" by simp
  then have "takeWhile (\<lambda>x. x \<noteq> CHR ''.'') (rev (stem @ ''.'' @ ext)) = rev ext"
    using nodot by (simp add: takeWhile_append)
  then have "rsplit1 CHR ''.'' (stem @ ''.'' @ ext) ! 1 = ext" by (simp add: rsplit1_def)
  moreover have "lower ext = ext" using assms by (auto simp: lower_def lower_char_def)
  ultimately show ?thesis using assms unfolding allowed_file_def ALLOWED_EXTENSIONS_def by auto
qed

lemma signature_filepath_png: "suffix ''.png'' (signature_filepath cwd pfx uid)"
proof -
  have "suffix (signature_filename pfx uid) (path_join d (signature_filename pfx uid))" for d
    by (auto simp: path_join_def suffix_def)
  moreover have "suffix ''.png'' (signature_filename pfx uid)"
    by (auto simp: signature_filename_def suffix_def)
  ultimately have "suffix ''.png'' (path_join d (signature_filename pfx uid))" for d
    using suffix_order.trans by blast
  then obtain a where "path_join (SIGNATURE_DIR cwd) (signature_filename pfx uid) = a @ ''.png''"
    by (auto simp: suffix_def)
  then show ?thesis by (simp add: signature_filepath_def replace_char_def suffix_def)
qed

lemma upload_store:
  assumes "upload_filename u = Some n" "allowed_file n" "can_write fs (signature_filepath cwd pfx uid)"
  shows "save_signature cwd uid (PFile u) pfx True s fs =
           (Some (signature_filename pfx uid),
            s\<lparr>signatures := Some (AList.update (signature_filename pfx uid) (signature_filepath cwd pfx uid) (registry (signatures s))), modified := True\<rparr>,
            fs(signature_filepath cwd pfx uid \<mapsto> File (upload_stream u)))"
  using assms
  unfolding save_signature_def save_signature_try_def register_signature_def Let_def
  by (simp add: write_file_can_write path_exists_def)

text \<open>
  C9. Whatever the input's image type, a stored signature gets the generated name
  \<open>prefix_uid.png\<close>, registered in the session under a path that ends in \<open>.png\<close>;
  for an upload the stored bytes are the uploaded bytes. In particular an upload named
  \<open>*.jpg\<close> or \<open>*.jpeg\<close> passes the allow-list and is stored so, wherever the target can
  be written.
\<close>

theorem stored_signature_is_png_named:
  "(save_signature cwd uid data pfx fl s fs = (Some fn, s', fs') \<longrightarrow>
      fn = pfx @ ''_'' @ uid @ ''.png'' \<and>
      map_of (registry (signatures s')) fn = Some (signature_filepath cwd pfx uid) \<and>
      suffix ''.png'' (signature_filepath cwd pfx uid) \<and>
      (fl \<longrightarrow> (\<exists>u. data = PFile u \<and> fs' (signature_filepath cwd pfx uid) = Some (File (upload_stream u))))) \<and>
   (upload_filename u = Some (stem @ ''.'' @ ext) \<and> ext \<in> {''jpg'', ''jpeg''} \<and>
    can_write fs (signature_filepath cwd pfx uid) \<longrightarrow>
      (\<exists>s'. save_signature cwd uid (PFile u) pfx True s fs =
         (Some (pfx @ ''_'' @ uid @ ''.png''), s', fs(signature_filepath cwd pfx uid \<mapsto> File (upload_stream u)))))"
proof (intro conjI impI)
  assume a: "save_signature cwd uid data pfx fl s fs = (Some fn, s', fs')"
  note r = save_signature_success[OF a]
  show "fn = pfx @ ''_'' @ uid @ ''.png''" using r by (simp add: signature_filename_def)
  show "map_of (registry (signatures s')) fn = Some (signature_filepath cwd pfx uid)"
    using r by (simp add: registry_def update_Some_unfold)
  show "suffix ''.png'' (signature_filepath cwd pfx uid)" by (rule signature_filepath_png)
  show "\<exists>u. data = PFile u \<and> fs' (signature_filepath cwd pfx uid) = Some (File (upload_stream u))" if fl
    using r that by auto
next
  assume a: "upload_filename u = Some (stem @ ''.'' @ ext) \<and> ext \<in> {''jpg'', ''jpeg''} \<and>
    can_write fs (signature_filepath cwd pfx uid)"
  then have "allowed_file (stem @ ''.'' @ ext)" using allowed_file_ext[of ext stem] by auto
  from upload_store[OF _ this, of u fs cwd pfx uid s] a
  show "\<exists>s'. save_signature cwd uid (PFile u) pfx True s fs =
         (Some (pfx @ ''_'' @ uid @ ''.png''), s', fs(signature_filepath cwd pfx uid \<mapsto> File (upload_stream u)))"
    by (simp add: signature_filename_def)
qed

lemmas sig_path_eval =
  signature_filepath_def signature_filename_def SIGNATURE_DIR_def path_join_def startswith_def
  replace_char_def

lemma can_write_example:
  "can_write [''/app/temp_signatures'' \<mapsto> Dir] (signature_filepath ''/app'' ''customer'' ''u1'')"
  by (simp add: can_write_def sig_path_eval parent_dir_def)

theorem stored_signature_is_png_named_witness:
  "save_signature ''/app'' ''u1'' (PFile \<lparr>upload_filename = Some ''sig.jpg'', upload_stream = ''JFIF''\<rparr>)
      ''customer'' True empty_session [''/app/temp_signatures'' \<mapsto> Dir] =
     (Some ''customer_u1.png'',
      empty_session\<lparr>signatures := Some [(''customer_u1.png'', ''/app/temp_signatures/customer_u1.png'')],
        modified := True\<rparr>,
      [''/app/temp_signatures'' \<mapsto> Dir, ''/app/temp_signatures/customer_u1.png'' \<mapsto> File ''JFIF'']) \<and>
   suffix ''.png'' ''/app/temp_signatures/customer_u1.png''"
proof -
  let ?u = "\<lparr>upload_filename = Some ''sig.jpg'', upload_stream = ''JFIF''\<rparr>"
  have h: "upload_filename ?u = Some (''sig'' @ ''.'' @ ''jpg'') \<and> ''jpg'' \<in> {''jpg'', ''jpeg''} \<and>
      can_write [''/app/temp_signatures'' \<mapsto> Dir] (signature_filepath ''/app'' ''customer'' ''u1'')"
    using can_write_example by simp
  from stored_signature_is_png_named [where u = ?u and stem = "''sig''" and ext = "''jpg''"
      and fs = "[''/app/temp_signatures'' \<mapsto> Dir]" and cwd = "''/app''" and pfx = "''customer''"
      and uid = "''u1''" and s = empty_session, THEN conjunct2, rule_format, OF h]
  obtain s' where e: "save_signature ''/app'' ''u1'' (PFile ?u) ''customer'' True empty_session [''/app/temp_signatures'' \<mapsto> Dir] =
         (Some ''customer_u1.png'', s', [''/app/temp_signatures'' \<mapsto> Dir, ''/app/temp_signatures/customer_u1.png'' \<mapsto> File ''JFIF''])"
    by (auto simp: sig_path_eval)
  from save_signature_success[OF e] have "s' = empty_session\<lparr>signatures := Some [(''customer_u1.png'', ''/app/temp_signatures/customer_u1.png'')], modified := True\<rparr>"
    by (simp add: sig_path_eval registry_def empty_session_def)
  moreover from stored_signature_is_png_named [THEN conjunct1, rule_format, OF e]
  have "suffix ''.png'' ''/app/temp_signatures/customer_u1.png''" by (simp add: sig_path_eval)
  ultimately show ?thesis using e by simp
qed

text \<open>
  C2 (amended). The payload of an inline signature is the text between the first comma
  and the next comma (or the end). When \<open>base64.b64decode\<close> refuses that payload,
  \<open>save_signature\<close> returns \<open>None\<close>: no exception leaves the function, the session and
  the files are as before.
\<close>

theorem save_signature_rejects_undecodable:
  "b64decode (payload_segment d) = Inl e \<Longrightarrow>
     save_signature cwd uid (PStr d) pfx False s fs = (None, s, fs)"
  by (rule canvas_reject)

theorem save_signature_rejects_undecodable_witness:
  "b64decode (payload_segment ''data:image/png;base64,QQ'') = Inl (Binascii_Error ''Incorrect padding'') \<and>
   save_signature ''/app'' ''u1'' (PStr ''data:image/png;base64,QQ'') ''customer'' False
      empty_session [''/app/temp_signatures'' \<mapsto> Dir] =
     (None, empty_session, [''/app/temp_signatures'' \<mapsto> Dir])"
proof -
  have "payload_segment ''data:image/png;base64,QQ'' = ''QQ''"
    by (simp add: payload_segment_def after_first_comma_def)
  moreover have "b64decode ''QQ'' = Inl (Binascii_Error ''Incorrect padding'')" by code_simp
  ultimately have h: "b64decode (payload_segment ''data:image/png;base64,QQ'') = Inl (Binascii_Error ''Incorrect padding'')"
    by simp
  from save_signature_rejects_undecodable [OF h] h show ?thesis by simp
qed

text \<open>C2 as stated fails: the decoder skips a character outside the base64 alphabet, so
  a payload that contains one is decoded, stored and registered.\<close>

theorem save_signature_skips_foreign_characters_counterexample:
  "CHR ''!'' \<in> set (after_first_comma ''data:image/png;base64,QUJD!'') \<and>
   \<not> in_b64_alphabet CHR ''!'' \<and>
   save_signature ''/app'' ''u1'' (PStr ''data:image/png;base64,QUJD!'') ''customer'' False
      empty_session [''/app/temp_signatures'' \<mapsto> Dir] =
     (Some ''customer_u1.png'',
      empty_session\<lparr>signatures := Some [(''customer_u1.png'', ''/app/temp_signatures/customer_u1.png'')],
        modified := True\<rparr>,
      [''/app/temp_signatures'' \<mapsto> Dir, ''/app/temp_signatures/customer_u1.png'' \<mapsto> File ''ABC''])"
proof -
  have seg: "payload_segment ''data:image/png;base64,QUJD!'' = ''QUJD!''"
    by (simp add: payload_segment_def after_first_comma_def)
  have dec: "b64decode ''QUJD!'' = Inr ''ABC''" by code_simp
  have "save_signature ''/app'' ''u1'' (PStr ''data:image/png;base64,QUJD!'') ''customer'' False
      empty_session [''/app/temp_signatures'' \<mapsto> Dir] =
     (Some ''customer_u1.png'',
      empty_session\<lparr>signatures := Some [(''customer_u1.png'', ''/app/temp_signatures/customer_u1.png'')],
        modified := True\<rparr>,
      [''/app/temp_signatures'' \<mapsto> Dir, ''/app/temp_signatures/customer_u1.png'' \<mapsto> File ''ABC''])"
    using canvas_store [of "''data:image/png;base64,QUJD!''" "''ABC''" "[''/app/temp_signatures'' \<mapsto> Dir]" "''/app''" "''customer''" "''u1''" empty_session]
      can_write_example seg dec
    by (simp add: sig_path_eval registry_def empty_session_def)
  moreover have "\<not> in_b64_alphabet CHR ''!''" by (simp add: in_b64_alphabet_def b64_value_def)
  ultimately show ?thesis by (simp add: after_first_comma_def)
qed

text \<open>
  C6 (amended). For an inline signature that starts with \<open>data:image\<close> and contains a
  comma, the payload is the text between the first comma and the next comma (or the
  end); when it decodes and the target can be written, the signature is stored, and
  whenever an inline signature is stored, reading the registered path back yields the
  base64 decoding of that payload. For an input with one comma only, the payload is
  exactly the substring after the first comma.
\<close>

theorem canvas_signature_round_trip:
  "(startswith d ''data:image'' \<and> CHR '','' \<in> set d \<and> b64decode (payload_segment d) = Inr img \<and>
    can_write fs (signature_filepath cwd pfx uid) \<longrightarrow>
      (\<exists>s'. save_signature cwd uid (PStr d) pfx False s fs =
               (Some (signature_filename pfx uid), s', fs(signature_filepath cwd pfx uid \<mapsto> File img)))) \<and>
   (save_signature cwd uid (PStr d) pfx False s fs = (Some fn, s', fs') \<longrightarrow>
      (\<exists>p b. map_of (registry (signatures s')) fn = Some p \<and> read_file fs' p = Inr b \<and>
             b64decode (payload_segment d) = Inr b)) \<and>
   (CHR '','' \<notin> set (after_first_comma d) \<longrightarrow> payload_segment d = after_first_comma d)"
proof (intro conjI impI)
  assume "startswith d ''data:image'' \<and> CHR '','' \<in> set d \<and> b64decode (payload_segment d) = Inr img \<and>
    can_write fs (signature_filepath cwd pfx uid)"
  then show "\<exists>s'. save_signature cwd uid (PStr d) pfx False s fs =
               (Some (signature_filename pfx uid), s', fs(signature_filepath cwd pfx uid \<mapsto> File img))"
    using canvas_store [of d img fs cwd pfx uid s] by blast
next
  assume a: "save_signature cwd uid (PStr d) pfx False s fs = (Some fn, s', fs')"
  from save_signature_success [OF a] obtain b
    where s': "s' = s\<lparr>signatures := Some (AList.update fn (signature_filepath cwd pfx uid) (registry (signatures s))), modified := True\<rparr>"
      and fs': "fs' = fs(signature_filepath cwd pfx uid \<mapsto> File b)"
      and dec: "b64decode (payload_segment d) = Inr b"
    by auto
  have "map_of (registry (signatures s')) fn = Some (signature_filepath cwd pfx uid)"
    using s' by (simp add: registry_def update_Some_unfold)
  moreover have "read_file fs' (signature_filepath cwd pfx uid) = Inr b"
    using fs' by (simp add: read_file_def)
  ultimately show "\<exists>p b. map_of (registry (signatures s')) fn = Some p \<and> read_file fs' p = Inr b \<and>
             b64decode (payload_segment d) = Inr b"
    using dec by blast
next
  assume "CHR '','' \<notin> set (after_first_comma d)"
  then show "payload_segment d = after_first_comma d"
    by (auto simp: payload_segment_def)
qed

theorem canvas_signature_round_trip_witness:
  "save_signature ''/app'' ''u1'' (PStr ''data:image/png;base64,aGVsbG8='') ''customer'' False
      empty_session [''/app/temp_signatures'' \<mapsto> Dir] =
     (Some ''customer_u1.png'',
      empty_session\<lparr>signatures := Some [(''customer_u1.png'', ''/app/temp_signatures/customer_u1.png'')],
        modified := True\<rparr>,
      [''/app/temp_signatures'' \<mapsto> Dir, ''/app/temp_signatures/customer_u1.png'' \<mapsto> File ''hello'']) \<and>
   b64decode (after_first_comma ''data:image/png;base64,aGVsbG8='') = Inr ''hello'' \<and>
   payload_segment ''data:image/png;base64,aGVsbG8='' = after_first_comma ''data:image/png;base64,aGVsbG8='' \<and>
   (\<exists>p. map_of [(''customer_u1.png'', ''/app/temp_signatures/customer_u1.png'')] ''customer_u1.png'' = Some p \<and>
        read_file [''/app/temp_signatures'' \<mapsto> Dir, ''/app/temp_signatures/customer_u1.png'' \<mapsto> File ''hello''] p =
          Inr ''hello'')"
proof -
  let ?d = "''data:image/png;base64,aGVsbG8=''"
  let ?fs = "[''/app/temp_signatures'' \<mapsto> Dir]"
  have seg: "payload_segment ?d = ''aGVsbG8=''" "after_first_comma ?d = ''aGVsbG8=''"
    by (simp_all add: payload_segment_def after_first_comma_def)
  have dec: "b64decode ''aGVsbG8='' = Inr ''hello''" by code_simp
  have h: "startswith ?d ''data:image'' \<and> CHR '','' \<in> set ?d \<and> b64decode (payload_segment ?d) = Inr ''hello'' \<and>
    can_write ?fs (signature_filepath ''/app'' ''customer'' ''u1'')"
    using can_write_example seg dec by (simp add: startswith_def)
  from canvas_signature_round_trip [THEN conjunct1, rule_format, OF h]
  obtain s' where e: "save_signature ''/app'' ''u1'' (PStr ?d) ''customer'' False empty_session ?fs =
      (Some ''customer_u1.png'', s', [''/app/temp_signatures'' \<mapsto> Dir, ''/app/temp_signatures/customer_u1.png'' \<mapsto> File ''hello''])"
    by (auto simp: sig_path_eval)
  from save_signature_success [OF e] have seq: "s' = empty_session\<lparr>signatures := Some [(''customer_u1.png'', ''/app/temp_signatures/customer_u1.png'')], modified := True\<rparr>"
    by (simp add: sig_path_eval registry_def empty_session_def)
  from canvas_signature_round_trip [THEN conjunct2, THEN conjunct1, rule_format, OF e]
  obtain p b where rb: "map_of (registry (signatures s')) ''customer_u1.png'' = Some p"
    "read_file [''/app/temp_signatures'' \<mapsto> Dir, ''/app/temp_signatures/customer_u1.png'' \<mapsto> File ''hello''] p = Inr b"
    "b64decode (payload_segment ?d) = Inr b"
    by blast
  have b: "b = ''hello''" using rb(3) seg dec by simp
  have nc: "CHR '','' \<notin> set (after_first_comma ?d)" by (simp add: seg)
  from canvas_signature_round_trip [THEN conjunct2, THEN conjunct2, rule_format, OF nc]
  have single: "payload_segment ?d = after_first_comma ?d" .
  have "\<exists>p. map_of [(''customer_u1.png'', ''/app/temp_signatures/customer_u1.png'')] ''customer_u1.png'' = Some p \<and>
        read_file [''/app/temp_signatures'' \<mapsto> Dir, ''/app/temp_signatures/customer_u1.png'' \<mapsto> File ''hello''] p =
          Inr ''hello''"
    using rb(1,2) b seq by (auto simp: registry_def)
  then show ?thesis using e seq seg dec single by simp
qed

text \<open>C6 as stated fails for a payload that contains a comma: the substring after the
  first comma decodes to six bytes, and the stored file holds the decoding of its first
  segment only.\<close>

theorem payload_with_comma_counterexample:
  "after_first_comma ''data:image/png;base64,QUJD,REVG'' = ''QUJD,REVG'' \<and>
   b64decode ''QUJD,REVG'' = Inr ''ABCDEF'' \<and>
   save_signature ''/app'' ''u1'' (PStr ''data:image/png;base64,QUJD,REVG'') ''customer'' False
      empty_session [''/app/temp_signatures'' \<mapsto> Dir] =
     (Some ''customer_u1.png'',
      empty_session\<lparr>signatures := Some [(''customer_u1.png'', ''/app/temp_signatures/customer_u1.png'')],
        modified := True\<rparr>,
      [''/app/temp_signatures'' \<mapsto> Dir, ''/app/temp_signatures/customer_u1.png'' \<mapsto> File ''ABC''])"
proof -
  have seg: "payload_segment ''data:image/png;base64,QUJD,REVG'' = ''QUJD''"
    by (simp add: payload_segment_def after_first_comma_def)
  have dec: "b64decode ''QUJD'' = Inr ''ABC''" by code_simp
  have dec2: "b64decode ''QUJD,REVG'' = Inr ''ABCDEF''" by code_simp
  have "save_signature ''/app'' ''u1'' (PStr ''data:image/png;base64,QUJD,REVG'') ''customer'' False
      empty_session [''/app/temp_signatures'' \<mapsto> Dir] =
     (Some ''customer_u1.png'',
      empty_session\<lparr>signatures := Some [(''customer_u1.png'', ''/app/temp_signatures/customer_u1.png'')],
        modified := True\<rparr>,
      [''/app/temp_signatures'' \<mapsto> Dir, ''/app/temp_signatures/customer_u1.png'' \<mapsto> File ''ABC''])"
    using canvas_store [of "''data:image/png;base64,QUJD,REVG''" "''ABC''" "[''/app/temp_signatures'' \<mapsto> Dir]" "''/app''" "''customer''" "''u1''" empty_session]
      can_write_example seg dec
    by (simp add: sig_path_eval registry_def empty_session_def)
  then show ?thesis using dec2 by (simp add: after_first_comma_def)
qed

section \<open>Properties of document assembly and conversion\<close>

lemma check_signature_files_missing:
  assumes "k \<in> set keys" "map_of content k = Some p" "\<not> path_exists fs p"
  shows "\<exists>k' q. k' \<in> set keys \<and> map_of content k' = Some q \<and> \<not> path_exists fs q \<and>
           check_signature_files fs content keys = Inl (FileNotFoundError (''Signature file not found: '' @ q))"
  using assms
proof (induction keys)
  case Nil
  then show ?case by simp
next
  case (Cons a keys)
  show ?case
  proof (cases "\<exists>q. map_of content a = Some q \<and> \<not> path_exists fs q")
    case True
    then show ?thesis by auto
  next
    case False
    then have e: "check_signature_files fs content (a # keys) = check_signature_files fs content keys"
      by (auto split: option.splits)
    from False Cons.prems have "k \<in> set keys" by auto
    from Cons.IH[OF this Cons.prems(2,3)] e show ?thesis by auto
  qed
qed

text \<open>
  C5. When the content mapping has one of the two signature keys and the file it names
  does not exist, \<open>create_document\<close> raises \<open>FileNotFoundError\<close> with the message
  "Signature file not found" for such a path: no document buffer is returned, and the
  caller \<open>generate_pdf\<close> passes the same error on without touching session or files.
\<close>

theorem create_document_missing_signature_file:
  assumes "k \<in> {''customer_signature'', ''chervic_signature''}"
    and "map_of content k = Some p" and "\<not> path_exists fs p"
  shows "\<exists>k' q. k' \<in> {''customer_signature'', ''chervic_signature''} \<and> map_of content k' = Some q \<and>
            \<not> path_exists fs q \<and>
            create_document env fs content = Inl (FileNotFoundError (''Signature file not found: '' @ q)) \<and>
            generate_pdf env uid content s fs = (Inl (FileNotFoundError (''Signature file not found: '' @ q)), s, fs)"
proof -
  from assms(1) have "k \<in> set [''customer_signature'', ''chervic_signature'']" by simp
  from check_signature_files_missing[OF this assms(2,3)]
  obtain k' q where kq: "k' \<in> set [''customer_signature'', ''chervic_signature'']" "map_of content k' = Some q"
    "\<not> path_exists fs q"
    "check_signature_files fs content [''customer_signature'', ''chervic_signature''] = Inl (FileNotFoundError (''Signature file not found: '' @ q))"
    by blast
  then have "create_document env fs content = Inl (FileNotFoundError (''Signature file not found: '' @ q))"
    by (simp add: create_document_def)
  then show ?thesis using kq(1,2,3) by (auto simp: generate_pdf_def)
qed




lemma generate_pdf_reached:
  assumes "conversion_outcome env uid content fs = Some (res, fs2)" "map_of content ''name'' = Some name"
  shows "generate_pdf env uid content s fs =
     (case res of
        Completed rc out err \<Rightarrow>
          (if rc = 0 \<and> path_exists fs2 (pdf_path env name uid) then
             (let s1 = s\<lparr>pdfs := Some (AList.update (pdf_name name uid) (pdf_path env name uid) (registry (pdfs s))),
                           docxs := Some (AList.update (pdf_name name uid) (docx_path env name uid) (registry (docxs s))),
                           modified := True\<rparr>
              in case read_file fs2 (pdf_path env name uid) of
                   Inr b \<Rightarrow> (Inr (pdf_name name uid, b), s1, fs2)
                 | Inl e \<Rightarrow> (case generate_pdf_cleanup e (docx_path env name uid) (pdf_path env name uid) fs2 of
                              (e', fs') \<Rightarrow> (Inl e', s1, fs')))
           else (case generate_pdf_cleanup
                        (if rc \<noteq> 0 then Exception (''PDF conversion failed: stdout='' @ out @ '', stderr='' @ err)
                         else Exception (''PDF file was not generated at '' @ pdf_path env name uid))
                        (docx_path env name uid) (pdf_path env name uid) fs2 of
                   (e', fs') \<Rightarrow> (Inl e', s, fs')))
      | Spawn_failed e \<Rightarrow>
          (case generate_pdf_cleanup e (docx_path env name uid) (pdf_path env name uid) fs2 of
             (e', fs') \<Rightarrow> (Inl e', s, fs')))"
proof -
  from assms obtain doc_buffer fs1 where cd: "create_document env fs content = Inr doc_buffer"
    and wf: "write_file fs (docx_path env name uid) doc_buffer = Inr fs1"
    and cv: "converter env (converter_args env (docx_path env name uid)) fs1 = (res, fs2)"
    unfolding conversion_outcome_def converter_input_def
    by (auto split: sum.splits option.splits simp: dict_get_def)
  show ?thesis
    unfolding generate_pdf_def generate_pdf_try_def run_converter_def
    using cd wf cv assms(2)
    by (auto split: proc_result.splits sum.splits prod.splits simp: Let_def)
qed









theorem create_document_missing_signature_file_witness:
  "create_document (example_env failing_converter) Map.empty
      [(''name'', ''Acme Ltd''), (''customer_signature'', ''/app/temp_signatures/customer_u1.png'')] =
     Inl (FileNotFoundError ''Signature file not found: /app/temp_signatures/customer_u1.png'')"
proof -
  let ?c = "[(''name'', ''Acme Ltd''), (''customer_signature'', ''/app/temp_signatures/customer_u1.png'')]"
  have h: "''customer_signature'' \<in> {''customer_signature'', ''chervic_signature''}"
    "map_of ?c ''customer_signature'' = Some ''/app/temp_signatures/customer_u1.png''"
    "\<not> path_exists Map.empty ''/app/temp_signatures/customer_u1.png''"
    by (simp_all add: path_exists_def)
  from create_document_missing_signature_file [OF h, of "example_env failing_converter" "''u1''" empty_session]
  show ?thesis by auto
qed

section \<open>Properties of the login\<close>

text \<open>
  C7. When the login request is answered with a success status and a JSON body, the role
  is fetched, and the role is not \<open>BUSINESS_DEVELOPMENT_USER\<close>, then \<open>login_user\<close>
  raises \<open>AuthenticationError\<close> and the session is exactly as before: no user identity
  and no cookies are written.
\<close>

theorem login_rejects_disallowed_role:
  assumes "response_json (post_login env username password) = Inr (result, resp_cookies)"
    and "fetch_user_info env (Some resp_cookies) s = Inr user_info"
    and "json_get user_info ''userRole'' JNull = Inr role"
    and "role \<noteq> JStr ''BUSINESS_DEVELOPMENT_USER''"
  shows "login_user env username password s = (Inl (AuthenticationError (Role_not_authorized role)), s)"
  using assms by (simp add: login_user_def ALLOWED_ROLE_def)

theorem login_rejects_disallowed_role_witness:
  "login_user
     ((example_env failing_converter)
        \<lparr>post_login := (\<lambda>u p. Http_response 200 (Some (JObj [(''user'', JObj [(''id'', JNum 7)])])) [(''sid'', ''abc'')]),
         get_role := (\<lambda>c. Http_response 200 (Some (JObj [(''userRole'', JStr ''ADMIN''), (''id'', JNum 7)])) [])\<rparr>)
     ''alice'' ''secret'' empty_session =
   (Inl (AuthenticationError (Role_not_authorized (JStr ''ADMIN''))), empty_session) \<and>
   user empty_session = None"
proof -
  let ?env = "(example_env failing_converter)
        \<lparr>post_login := (\<lambda>u p. Http_response 200 (Some (JObj [(''user'', JObj [(''id'', JNum 7)])])) [(''sid'', ''abc'')]),
         get_role := (\<lambda>c. Http_response 200 (Some (JObj [(''userRole'', JStr ''ADMIN''), (''id'', JNum 7)])) [])\<rparr>"
  have h1: "response_json (post_login ?env ''alice'' ''secret'') =
      Inr (JObj [(''user'', JObj [(''id'', JNum 7)])], [(''sid'', ''abc'')])"
    by (simp add: response_json_def raise_for_status_def)
  have h2: "fetch_user_info ?env (Some [(''sid'', ''abc'')]) empty_session =
      Inr (JObj [(''userRole'', JStr ''ADMIN''), (''id'', JNum 7)])"
    by (simp add: fetch_user_info_def response_json_def raise_for_status_def)
  have h3: "json_get (JObj [(''userRole'', JStr ''ADMIN''), (''id'', JNum 7)]) ''userRole'' JNull = Inr (JStr ''ADMIN'')"
    by (simp add: json_get_def dict_get_def)
  have h4: "JStr ''ADMIN'' \<noteq> JStr ''BUSINESS_DEVELOPMENT_USER''" by simp
  from login_rejects_disallowed_role [OF h1 h2 h3 h4] show ?thesis by (simp add: empty_session_def)
qed

section \<open>Properties of the teardown\<close>

















section \<open>Properties of the submission handler\<close>











section \<open>The registries over a sequence of requests\<close>

lemma dict_keys_update: "dict_keys (AList.update k v al) = insert k (dict_keys al)"
  by (simp add: dict_keys_def dom_update)

lemma dict_keys_map_of: "(k \<in> dict_keys al) = (map_of al k \<noteq> None)"
  by (simp add: dict_keys_def map_of_eq_None_iff)

lemma login_user_registries:
  "login_user env username password s = (r, s') \<Longrightarrow> pdfs s' = pdfs s \<and> docxs s' = docxs s"
  unfolding login_user_def establish_session_def Let_def
  by (auto split: sum.splits prod.splits if_splits)

lemma save_signature_registries:
  "save_signature cwd uid data pfx fl s fs = (r, s', fs') \<Longrightarrow> pdfs s' = pdfs s \<and> docxs s' = docxs s"
  by (cases r) (auto dest: save_signature_failure_frame save_signature_success)

lemma signature_step_registries:
  "signature_step cwd uid pfx label sd sf s fs = (r, s', fs') \<Longrightarrow> pdfs s' = pdfs s \<and> docxs s' = docxs s"
  unfolding signature_step_def
  by (auto split: if_splits prod.splits option.splits dest: save_signature_registries)

lemma generate_pdf_session:
  assumes "generate_pdf env uid content s fs = (r, s', fs')"
  shows "(s' = s \<and> (\<forall>v. r \<noteq> Inr v)) \<or>
         (\<exists>name. map_of content ''name'' = Some name \<and>
            s' = s\<lparr>pdfs := Some (AList.update (pdf_name name uid) (pdf_path env name uid) (registry (pdfs s))),
                   docxs := Some (AList.update (pdf_name name uid) (docx_path env name uid) (registry (docxs s))),
                   modified := True\<rparr> \<and>
            (\<forall>v. r = Inr v \<longrightarrow> fst v = pdf_name name uid))"
  using assms
  unfolding generate_pdf_def generate_pdf_try_def Let_def
  by (auto split: sum.splits option.splits prod.splits)

lemma generate_pdf_aligned:
  assumes "generate_pdf env uid content s fs = (r, s', fs')" "registries_aligned s"
  shows "registries_aligned s'"
  using generate_pdf_session[OF assms(1)] assms(2)
  by (auto simp: registries_aligned_def registry_def dict_keys_update)

lemma alias_registries:
  "pdfs (alias_form_data s data) = pdfs s" "docxs (alias_form_data s data) = docxs s"
  by (simp_all add: alias_form_data_def)

lemma submit_agreement_aligned:
  assumes "submit_agreement env now uid data s fs = (resp, s', fs')" "registries_aligned s"
  shows "registries_aligned s'"
proof -
  let ?s0 = "s\<lparr>form_data := Some data, modified := True\<rparr>"
  obtain r s1 fs1 where g: "generate_pdf env uid data ?s0 fs = (r, s1, fs1)"
    by (cases "generate_pdf env uid data ?s0 fs") auto
  have "registries_aligned ?s0" using assms(2) by (simp add: registries_aligned_def)
  from generate_pdf_aligned[OF g this] have "registries_aligned s1" .
  moreover have "s' = s1" using assms(1) g
    by (auto simp: submit_agreement_def split: sum.splits prod.splits option.splits)
  ultimately show ?thesis by simp
qed

lemma aligned_cong: "pdfs s' = pdfs s \<Longrightarrow> docxs s' = docxs s \<Longrightarrow> registries_aligned s \<Longrightarrow> registries_aligned s'"
  by (simp add: registries_aligned_def)

lemma generate_nda_aligned:
  assumes "generate_nda env now uid1 uid2 uid3 req s fs = (resp, s', fs')" "registries_aligned s"
  shows "registries_aligned s'"
proof (cases "user s = None")
  case True
  then show ?thesis using assms by (simp add: generate_nda_def)
next
  case False
  then obtain u where us: "user s = Some u" by auto
  show ?thesis
  proof (cases "check_required (form req) (registry (form_data s)) required_fields")
    case (Inl a)
    then show ?thesis using assms False
      by (auto simp: generate_nda_def alias_registries registries_aligned_def split: prod.splits)
  next
    case (Inr data1)
    show ?thesis
    proof (cases "check_dates data1 date_fields")
      case (Inl e)
      then show ?thesis using assms False Inr
        by (auto simp: generate_nda_def alias_registries registries_aligned_def)
    next
      case (Inr od)
      show ?thesis
      proof (cases od)
        case (Some fld)
        then show ?thesis using assms False \<open>check_required (form req) (registry (form_data s)) required_fields = Inr data1\<close> Inr
          by (auto simp: generate_nda_def alias_registries registries_aligned_def)
      next
        case None
        let ?data2 = "foldl (\<lambda>d field. AList.update field (sanitize_input (dict_get (form req) field [])) d) data1 optional_fields"
        let ?ariba = "sanitize_input (dict_get (form req) ''aribaNetworkId'' (case aribaNetworkId s of None \<Rightarrow> [] | Some a \<Rightarrow> a))"
        let ?example_fields = "AList.update ''aribaNetworkId'' ?ariba ?data2"
        let ?s1 = "(if ?ariba \<noteq> [] then s\<lparr>aribaNetworkId := Some ?ariba, modified := True\<rparr> else s)"
        have a1: "registries_aligned ?s1" using assms(2) by (simp add: registries_aligned_def)
        obtain r2 s2 fs2 where st1: "signature_step (env_cwd env) uid1 ''chervic'' ''Chervic''
                                (map_of (form req) ''chervic_signature_data'')
                                (map_of (files req) ''chervic_signature'') ?s1 fs = (r2, s2, fs2)"
          using prod_cases3 by blast
        from signature_step_registries[OF st1] a1 have a2: "registries_aligned s2"
          using aligned_cong by blast
        have g: "generate_nda env now uid1 uid2 uid3 req s fs =
            (case r2 of
               Inl msg \<Rightarrow> (Render_index [(msg, ''error'')] ?example_fields, alias_form_data s2 ?example_fields, fs2)
             | Inr chervic_path \<Rightarrow>
                 (let data4 = AList.update ''chervic_signature'' chervic_path ?example_fields
                  in (case signature_step (env_cwd env) uid2 ''customer'' ''Customer''
                               (map_of (form req) ''contact_person_signature_data'')
                               (map_of (files req) ''contact_person_signature'') s2 fs2 of
                        (Inl msg, s3, fs3) \<Rightarrow>
                          (Render_index [(msg, ''error'')] data4, alias_form_data s3 data4, fs3)
                      | (Inr customer_path, s3, fs3) \<Rightarrow>
                          submit_agreement env now uid3
                            (AList.update ''customer_signature'' customer_path data4) s3 fs3)))"
          using us \<open>check_required (form req) (registry (form_data s)) required_fields = Inr data1\<close> Inr None st1
          by (cases r2) (simp_all add: generate_nda_def Let_def)
        show ?thesis
        proof (cases r2)
          case (Inl msg)
          then show ?thesis using g assms(1) a2 by (auto simp: alias_registries registries_aligned_def)
        next
          case (Inr chervic_path)
          obtain r3 s3 fs3 where st2: "signature_step (env_cwd env) uid2 ''customer'' ''Customer''
                               (map_of (form req) ''contact_person_signature_data'')
                               (map_of (files req) ''contact_person_signature'') s2 fs2 = (r3, s3, fs3)"
            using prod_cases3 by blast
          from signature_step_registries[OF st2] a2 have a3: "registries_aligned s3"
            using aligned_cong by blast
          show ?thesis
          proof (cases r3)
            case (Inl msg)
            then show ?thesis using g assms(1) a3 Inr st2
              by (auto simp: alias_registries registries_aligned_def Let_def)
          next
            case (Inr customer_path)
            then have "submit_agreement env now uid3
                            (AList.update ''customer_signature'' customer_path (AList.update ''chervic_signature'' chervic_path ?example_fields)) s3 fs3 = (resp, s', fs')"
              using g assms(1) \<open>r2 = Inr chervic_path\<close> st2 by (simp add: Let_def)
            from submit_agreement_aligned[OF this a3] show ?thesis .
          qed
        qed
      qed
    qed
  qed
qed

lemma reachable_aligned: "reachable env s \<Longrightarrow> registries_aligned s"
proof (induction rule: reachable.induct)
  case start
  then show ?case by (simp add: registries_aligned_def empty_session_def)
next
  case (login s username password r s')
  then show ?case using login_user_registries aligned_cong by blast
next
  case (submit s now uid1 uid2 uid3 req fs resp s' fs')
  then show ?case using generate_nda_aligned by blast
next
  case (leave s fs resp s' fs' lg)
  then have "s' = empty_session" by (auto simp: logout_def split: prod.splits)
  then show ?case by (simp add: registries_aligned_def empty_session_def)
next
  case (fill s fd a)
  then show ?case by (simp add: registries_aligned_def)
next
  case (flag s b)
  then show ?case by (simp add: registries_aligned_def)
qed

text \<open>
  C10. In every session that requests can lead to, the PDF registry and the DOCX registry
  have the same keys: an identifier is found in one exactly when it is found in the
  other. A successful conversion enters the PDF path and the working-document path under
  one and the same key, the PDF file name.
\<close>

theorem registries_stay_aligned:
  "(reachable env s \<longrightarrow>
      dict_keys (registry (pdfs s)) = dict_keys (registry (docxs s)) \<and>
      (\<forall>k. (map_of (registry (pdfs s)) k \<noteq> None) = (map_of (registry (docxs s)) k \<noteq> None))) \<and>
   (generate_pdf env uid content s fs = (Inr (fn, b), s', fs') \<longrightarrow>
      (\<exists>name. map_of content ''name'' = Some name \<and> fn = pdf_name name uid \<and>
         map_of (registry (pdfs s')) fn = Some (pdf_path env name uid) \<and>
         map_of (registry (docxs s')) fn = Some (docx_path env name uid)))"
proof (intro conjI impI)
  assume r: "reachable env s"
  from reachable_aligned[OF r] show k: "dict_keys (registry (pdfs s)) = dict_keys (registry (docxs s))"
    by (simp add: registries_aligned_def)
  show "\<forall>k. (map_of (registry (pdfs s)) k \<noteq> None) = (map_of (registry (docxs s)) k \<noteq> None)"
    using k dict_keys_map_of by metis
next
  assume g: "generate_pdf env uid content s fs = (Inr (fn, b), s', fs')"
  from generate_pdf_session[OF g]
  show "\<exists>name. map_of content ''name'' = Some name \<and> fn = pdf_name name uid \<and>
         map_of (registry (pdfs s')) fn = Some (pdf_path env name uid) \<and>
         map_of (registry (docxs s')) fn = Some (docx_path env name uid)"
    by (auto simp: registry_def update_Some_unfold)
qed

subsection \<open>A complete submission\<close>

lemma required_fields_example: "check_required example_form [] required_fields = Inr (take 15 example_form)"
  by code_simp

lemma dates_example: "check_dates (take 15 example_form) date_fields = Inr None"
  by code_simp

lemma ariba_example: "sanitize_input (dict_get example_form ''aribaNetworkId'' []) = []"
  by code_simp

lemma login_example:
  "login_user accepting_env ''alice'' ''secret'' empty_session =
     (Inr (JObj [(''user'', JObj [(''id'', JNum 7)])]), logged_in_session)"
  by (simp add: login_user_def response_json_def raise_for_status_def fetch_user_info_def json_get_def dict_get_def
      ALLOWED_ROLE_def establish_session_def py_or_def truthy_def Let_def accepting_env_def logged_in_session_def)

lemma accepting_env_fields:
  "env_cwd accepting_env = ''/app''" "image_ok accepting_env = (\<lambda>b. True)"
  "render_docx accepting_env = (\<lambda>blocks. ''DOCX'')" "converter accepting_env = working_converter"
  "json_load accepting_env = (\<lambda>b. Inr [])" "json_dump accepting_env = (\<lambda>h. ''[]'')"
  by (simp_all add: accepting_env_def example_env_def)

lemma signature_paths_example:
  "signature_filepath ''/app'' ''chervic'' ''u1'' = ''/app/temp_signatures/chervic_u1.png''"
  "signature_filepath ''/app'' ''customer'' ''u2'' = ''/app/temp_signatures/customer_u2.png''"
  "signature_filename ''chervic'' ''u1'' = ''chervic_u1.png''"
  "signature_filename ''customer'' ''u2'' = ''customer_u2.png''"
  by (simp_all add: sig_path_eval)

lemma b64decode_examples: "b64decode ''QUJD'' = Inr ''ABC''" "b64decode ''REVG'' = Inr ''DEF''"
  by code_simp+

lemma chervic_step_example:
  "signature_step ''/app'' ''u1'' ''chervic'' ''Chervic'' (Some ''data:image/png;base64,QUJD'') None
     logged_in_session example_disk =
   (Inr ''/app/temp_signatures/chervic_u1.png'',
    logged_in_session\<lparr>signatures := Some [(''chervic_u1.png'', ''/app/temp_signatures/chervic_u1.png'')],
       modified := True\<rparr>,
    example_disk(''/app/temp_signatures/chervic_u1.png'' \<mapsto> File ''ABC''))"
proof -
  have cw: "can_write example_disk (signature_filepath ''/app'' ''chervic'' ''u1'')"
    by (simp add: signature_paths_example can_write_def parent_dir_def example_disk_def)
  have seg: "payload_segment ''data:image/png;base64,QUJD'' = ''QUJD''"
    by (simp add: payload_segment_def after_first_comma_def)
  have sg: "signatures logged_in_session = None" by (simp add: logged_in_session_def empty_session_def)
  from canvas_store [of "''data:image/png;base64,QUJD''" "''ABC''" example_disk "''/app''" "''chervic''" "''u1''" logged_in_session]
  have "save_signature ''/app'' ''u1'' (PStr ''data:image/png;base64,QUJD'') ''chervic'' False logged_in_session example_disk =
     (Some ''chervic_u1.png'',
      logged_in_session\<lparr>signatures := Some [(''chervic_u1.png'', ''/app/temp_signatures/chervic_u1.png'')], modified := True\<rparr>,
      example_disk(''/app/temp_signatures/chervic_u1.png'' \<mapsto> File ''ABC''))"
    using cw seg b64decode_examples by (simp add: startswith_def signature_paths_example registry_def sg)
  then show ?thesis by (simp add: signature_step_def startswith_def registry_def dict_get_def)
qed

lemma customer_step_example:
  "signature_step ''/app'' ''u2'' ''customer'' ''Customer'' (Some ''data:image/png;base64,REVG'') None
     (logged_in_session\<lparr>signatures := Some [(''chervic_u1.png'', ''/app/temp_signatures/chervic_u1.png'')],
       modified := True\<rparr>)
     (example_disk(''/app/temp_signatures/chervic_u1.png'' \<mapsto> File ''ABC'')) =
   (Inr ''/app/temp_signatures/customer_u2.png'',
    logged_in_session\<lparr>signatures := Some [(''chervic_u1.png'', ''/app/temp_signatures/chervic_u1.png''),
                                          (''customer_u2.png'', ''/app/temp_signatures/customer_u2.png'')],
       modified := True\<rparr>,
    example_disk(''/app/temp_signatures/chervic_u1.png'' \<mapsto> File ''ABC'',
                 ''/app/temp_signatures/customer_u2.png'' \<mapsto> File ''DEF''))"
proof -
  let ?s = "logged_in_session\<lparr>signatures := Some [(''chervic_u1.png'', ''/app/temp_signatures/chervic_u1.png'')],
       modified := True\<rparr>"
  let ?fs = "example_disk(''/app/temp_signatures/chervic_u1.png'' \<mapsto> File ''ABC'')"
  have cw: "can_write ?fs (signature_filepath ''/app'' ''customer'' ''u2'')"
    by (simp add: signature_paths_example can_write_def parent_dir_def example_disk_def)
  have seg: "payload_segment ''data:image/png;base64,REVG'' = ''REVG''"
    by (simp add: payload_segment_def after_first_comma_def)
  from canvas_store [of "''data:image/png;base64,REVG''" "''DEF''" ?fs "''/app''" "''customer''" "''u2''" ?s]
  have "save_signature ''/app'' ''u2'' (PStr ''data:image/png;base64,REVG'') ''customer'' False ?s ?fs =
     (Some ''customer_u2.png'',
      logged_in_session\<lparr>signatures := Some [(''chervic_u1.png'', ''/app/temp_signatures/chervic_u1.png''),
                                          (''customer_u2.png'', ''/app/temp_signatures/customer_u2.png'')], modified := True\<rparr>,
      ?fs(''/app/temp_signatures/customer_u2.png'' \<mapsto> File ''DEF''))"
    using cw seg b64decode_examples by (simp add: startswith_def signature_paths_example registry_def)
  then show ?thesis by (simp add: signature_step_def startswith_def registry_def dict_get_def)
qed

lemma example_content_built:
  "AList.update ''customer_signature'' ''/app/temp_signatures/customer_u2.png''
     (AList.update ''chervic_signature'' ''/app/temp_signatures/chervic_u1.png'' example_fields) = example_content"
  by code_simp

lemma example_content_lookups:
  "map_of example_content ''name'' = Some ''Acme Ltd''"
  "map_of example_content ''customer_signature'' = Some ''/app/temp_signatures/customer_u2.png''"
  "map_of example_content ''chervic_signature'' = Some ''/app/temp_signatures/chervic_u1.png''"
  by code_simp+

lemma create_document_submission: "create_document accepting_env signed_disk example_content = Inr ''DOCX''"
  by (simp add: create_document_def example_content_lookups path_exists_def signed_disk_def truthy_get_def table_cell_def
      add_picture_def read_file_def dict_get_def accepting_env_fields Let_def)

lemma artifact_names_example:
  "pdf_name ''Acme Ltd'' ''u3'' = ''MSA_Acme_Ltd_u3.pdf''"
  "docx_path accepting_env ''Acme Ltd'' ''u3'' = ''/app/temp_docx/MSA_Acme_Ltd_u3.docx''"
  "pdf_path accepting_env ''Acme Ltd'' ''u3'' = ''/app/temp_pdf/MSA_Acme_Ltd_u3.pdf''"
  "history_path accepting_env ''MSA_Acme_Ltd_u3.pdf'' = ''/app/edit_history/MSA_Acme_Ltd_u3.pdf_history.json''"
proof -
  show n: "pdf_name ''Acme Ltd'' ''u3'' = ''MSA_Acme_Ltd_u3.pdf''" by code_simp
  show "docx_path accepting_env ''Acme Ltd'' ''u3'' = ''/app/temp_docx/MSA_Acme_Ltd_u3.docx''"
    by (simp add: docx_path_def docx_filename_def DOCX_DIR_def path_join_def startswith_def replace_char_def accepting_env_fields)
  show "pdf_path accepting_env ''Acme Ltd'' ''u3'' = ''/app/temp_pdf/MSA_Acme_Ltd_u3.pdf''"
    by (simp add: pdf_path_def n OUTPUT_DIR_def path_join_def startswith_def replace_char_def accepting_env_fields)
  show "history_path accepting_env ''MSA_Acme_Ltd_u3.pdf'' = ''/app/edit_history/MSA_Acme_Ltd_u3.pdf_history.json''"
    by (simp add: history_path_def EDIT_HISTORY_DIR_def path_join_def startswith_def replace_char_def accepting_env_fields)
qed

lemma conversion_outcome_submission:
  "conversion_outcome accepting_env ''u3'' example_content signed_disk =
     Some (Completed 0 ''convert'' [],
           signed_disk(''/app/temp_docx/MSA_Acme_Ltd_u3.docx'' \<mapsto> File ''DOCX'',
                 ''/app/temp_pdf/MSA_Acme_Ltd_u3.pdf'' \<mapsto> File ''PDF''))"
proof -
  have w: "write_file signed_disk ''/app/temp_docx/MSA_Acme_Ltd_u3.docx'' ''DOCX'' =
      Inr (signed_disk(''/app/temp_docx/MSA_Acme_Ltd_u3.docx'' \<mapsto> File ''DOCX''))"
    by (simp add: write_file_def parent_dir_def signed_disk_def example_disk_def)
  have o: "OUTPUT_DIR ''/app'' = ''/app/temp_pdf''" by (simp add: OUTPUT_DIR_def path_join_def startswith_def)
  show ?thesis
    unfolding conversion_outcome_def converter_input_def
    by (simp add: create_document_submission example_content_lookups artifact_names_example w dict_get_def converter_args_def o accepting_env_fields working_converter_def)
qed

lemma generate_pdf_example:
  "generate_pdf accepting_env ''u3'' example_content s signed_disk =
     (Inr (''MSA_Acme_Ltd_u3.pdf'', ''PDF''),
      s\<lparr>pdfs := Some (AList.update ''MSA_Acme_Ltd_u3.pdf'' ''/app/temp_pdf/MSA_Acme_Ltd_u3.pdf'' (registry (pdfs s))),
        docxs := Some (AList.update ''MSA_Acme_Ltd_u3.pdf'' ''/app/temp_docx/MSA_Acme_Ltd_u3.docx'' (registry (docxs s))),
        modified := True\<rparr>,
      signed_disk(''/app/temp_docx/MSA_Acme_Ltd_u3.docx'' \<mapsto> File ''DOCX'',
                 ''/app/temp_pdf/MSA_Acme_Ltd_u3.pdf'' \<mapsto> File ''PDF''))"
  using generate_pdf_reached [OF conversion_outcome_submission example_content_lookups(1), of s]
  by (simp add: artifact_names_example path_exists_def read_file_def Let_def)

lemma optional_fields_example:
  "AList.update ''aribaNetworkId'' []
     (foldl (\<lambda>d field. AList.update field (sanitize_input (dict_get example_form field [])) d)
        (take 15 example_form) optional_fields) = example_fields"
  by code_simp

lemma submission_reaches_conversion:
  "generate_nda accepting_env now ''u1'' ''u2'' ''u3'' \<lparr>form = example_form, files = []\<rparr>
     logged_in_session example_disk =
   submit_agreement accepting_env now ''u3'' example_content
     (logged_in_session\<lparr>signatures := Some [(''chervic_u1.png'', ''/app/temp_signatures/chervic_u1.png''),
                                          (''customer_u2.png'', ''/app/temp_signatures/customer_u2.png'')],
       modified := True\<rparr>) signed_disk"
proof -
  have u: "user logged_in_session = Some \<lparr>user_id = JNum 7, user_name = JStr ''alice'',
                       user_role = JStr ''BUSINESS_DEVELOPMENT_USER''\<rparr>" "form_data logged_in_session = None"
    "aribaNetworkId logged_in_session = None"
    by (simp_all add: logged_in_session_def empty_session_def)
  have l: "map_of example_form ''chervic_signature_data'' = Some ''data:image/png;base64,QUJD''"
    "map_of example_form ''contact_person_signature_data'' = Some ''data:image/png;base64,REVG''"
    by code_simp+
  show ?thesis
    using u
    by (simp add: generate_nda_def registry_def required_fields_example dates_example Let_def ariba_example optional_fields_example
        accepting_env_fields l chervic_step_example customer_step_example example_content_built signed_disk_def)
qed

lemma example_submission:
  "\<exists>fs'. generate_nda accepting_env ''2024-01-04T10:00:00'' ''u1'' ''u2'' ''u3''
     \<lparr>form = example_form, files = []\<rparr> logged_in_session example_disk =
   (Redirect (View_pdf ''MSA_Acme_Ltd_u3.pdf'') [(''Agreement generated successfully!'', ''success'')],
    final_session, fs') \<and>
    fs' ''/app/edit_history/MSA_Acme_Ltd_u3.pdf_history.json'' = Some (File ''[]'') \<and>
    fs' ''/app/temp_pdf/MSA_Acme_Ltd_u3.pdf'' = Some (File ''PDF'')"
proof -
  let ?s3 = "logged_in_session\<lparr>signatures := Some [(''chervic_u1.png'', ''/app/temp_signatures/chervic_u1.png''),
                                          (''customer_u2.png'', ''/app/temp_signatures/customer_u2.png'')],
       modified := True\<rparr>"
  let ?fs5 = "signed_disk(''/app/temp_docx/MSA_Acme_Ltd_u3.docx'' \<mapsto> File ''DOCX'',
                 ''/app/temp_pdf/MSA_Acme_Ltd_u3.pdf'' \<mapsto> File ''PDF'')"
  have u: "user logged_in_session = Some \<lparr>user_id = JNum 7, user_name = JStr ''alice'',
                       user_role = JStr ''BUSINESS_DEVELOPMENT_USER''\<rparr>"
    "pdfs logged_in_session = None" "docxs logged_in_session = None"
    by (simp_all add: logged_in_session_def empty_session_def)
  have fin: "?s3\<lparr>form_data := Some example_content, modified := True,
        pdfs := Some [(''MSA_Acme_Ltd_u3.pdf'', ''/app/temp_pdf/MSA_Acme_Ltd_u3.pdf'')],
        docxs := Some [(''MSA_Acme_Ltd_u3.pdf'', ''/app/temp_docx/MSA_Acme_Ltd_u3.docx'')],
        modified := True\<rparr> = final_session"
    by (simp add: final_session_def)
  have uf: "user final_session = Some \<lparr>user_id = JNum 7, user_name = JStr ''alice'',
                       user_role = JStr ''BUSINESS_DEVELOPMENT_USER''\<rparr>"
    by (simp add: final_session_def logged_in_session_def empty_session_def)
  have h: "save_edit_history accepting_env now ''MSA_Acme_Ltd_u3.pdf'' un ch a b ?fs5 =
      ?fs5(''/app/edit_history/MSA_Acme_Ltd_u3.pdf_history.json'' \<mapsto> File ''[]'')" for now un ch a b
    by (simp add: save_edit_history_def artifact_names_example path_exists_def signed_disk_def example_disk_def accepting_env_fields
        write_file_def parent_dir_def Let_def)
  have "submit_agreement accepting_env ''2024-01-04T10:00:00'' ''u3'' example_content ?s3 signed_disk =
     (Redirect (View_pdf ''MSA_Acme_Ltd_u3.pdf'') [(''Agreement generated successfully!'', ''success'')],
      final_session, ?fs5(''/app/edit_history/MSA_Acme_Ltd_u3.pdf_history.json'' \<mapsto> File ''[]''))"
    using u fin uf by (simp add: submit_agreement_def generate_pdf_example registry_def h)
  then show ?thesis unfolding submission_reaches_conversion by simp
qed

theorem registries_stay_aligned_witness:
  "reachable accepting_env final_session \<and>
   dict_keys (registry (pdfs final_session)) = {''MSA_Acme_Ltd_u3.pdf''} \<and>
   dict_keys (registry (docxs final_session)) = {''MSA_Acme_Ltd_u3.pdf''} \<and>
   (\<exists>s' fs'. generate_pdf accepting_env ''u3'' example_content empty_session signed_disk =
        (Inr (''MSA_Acme_Ltd_u3.pdf'', ''PDF''), s', fs') \<and>
      map_of (registry (pdfs s')) ''MSA_Acme_Ltd_u3.pdf'' = Some ''/app/temp_pdf/MSA_Acme_Ltd_u3.pdf'' \<and>
      map_of (registry (docxs s')) ''MSA_Acme_Ltd_u3.pdf'' = Some ''/app/temp_docx/MSA_Acme_Ltd_u3.docx'')"
proof -
  have "reachable accepting_env logged_in_session"
    using reachable.login [OF reachable.start login_example] .
  moreover obtain fs' where "generate_nda accepting_env ''2024-01-04T10:00:00'' ''u1'' ''u2'' ''u3''
     \<lparr>form = example_form, files = []\<rparr> logged_in_session example_disk =
   (Redirect (View_pdf ''MSA_Acme_Ltd_u3.pdf'') [(''Agreement generated successfully!'', ''success'')],
    final_session, fs')"
    using example_submission by blast
  ultimately have r: "reachable accepting_env final_session"
    using reachable.submit by blast
  have p: "dict_keys (registry (pdfs final_session)) = {''MSA_Acme_Ltd_u3.pdf''}"
    by (simp add: final_session_def registry_def dict_keys_def)
  note g = generate_pdf_example [of empty_session]
  from registries_stay_aligned [THEN conjunct2, rule_format, OF g]
  obtain name where n: "map_of example_content ''name'' = Some name"
    "map_of (registry (pdfs (empty_session\<lparr>pdfs := Some (AList.update ''MSA_Acme_Ltd_u3.pdf'' ''/app/temp_pdf/MSA_Acme_Ltd_u3.pdf'' (registry (pdfs empty_session))),
        docxs := Some (AList.update ''MSA_Acme_Ltd_u3.pdf'' ''/app/temp_docx/MSA_Acme_Ltd_u3.docx'' (registry (docxs empty_session))),
        modified := True\<rparr>))) ''MSA_Acme_Ltd_u3.pdf'' = Some (pdf_path accepting_env name ''u3'')"
    "map_of (registry (docxs (empty_session\<lparr>pdfs := Some (AList.update ''MSA_Acme_Ltd_u3.pdf'' ''/app/temp_pdf/MSA_Acme_Ltd_u3.pdf'' (registry (pdfs empty_session))),
        docxs := Some (AList.update ''MSA_Acme_Ltd_u3.pdf'' ''/app/temp_docx/MSA_Acme_Ltd_u3.docx'' (registry (docxs empty_session))),
        modified := True\<rparr>))) ''MSA_Acme_Ltd_u3.pdf'' = Some (docx_path accepting_env name ''u3'')"
    by blast
  from n(1) have "name = ''Acme Ltd''" by (simp add: example_content_lookups)
  with n(2,3) g have second: "\<exists>s' fs'. generate_pdf accepting_env ''u3'' example_content empty_session signed_disk =
        (Inr (''MSA_Acme_Ltd_u3.pdf'', ''PDF''), s', fs') \<and>
      map_of (registry (pdfs s')) ''MSA_Acme_Ltd_u3.pdf'' = Some ''/app/temp_pdf/MSA_Acme_Ltd_u3.pdf'' \<and>
      map_of (registry (docxs s')) ''MSA_Acme_Ltd_u3.pdf'' = Some ''/app/temp_docx/MSA_Acme_Ltd_u3.docx''"
    by (simp add: artifact_names_example)
  from registries_stay_aligned [THEN conjunct1, rule_format, OF r, THEN conjunct1] p r second
  show ?thesis by simp
qed

end
